theory Spec2Isabelle
  imports Main
begin

section \<open>JavaScript values\<close>

text \<open>
  The service of \<^verbatim>\<open>gscore-service.ts\<close> handles data of type \<^verbatim>\<open>unknown\<close>: whatever
  \<^verbatim>\<open>JSON.parse\<close> returned, or an attribute that is missing. \<open>jsval\<close> is that universe.
  Numbers are the integers (a double holds them exactly below \<open>2^53\<close>); fractional
  numbers are outside the model. A string is held as its UTF-8 bytes; every pattern the
  code searches for is ASCII, so searching bytes and searching UTF-16 code units split a
  string at the same places. An object is its list of properties, read first match first.
\<close>

datatype jsval =
    JUndefined
  | JNull
  | JBool bool
  | JNum int
  | JStr string
  | JArr "jsval list"
  | JObj "(string \<times> jsval) list"

datatype js_error = TypeError

text \<open>Truthiness, as \<^verbatim>\<open>!x\<close>, \<^verbatim>\<open>x || y\<close> and \<^verbatim>\<open>if (x)\<close> test it.\<close>

fun truthy :: "jsval \<Rightarrow> bool" where
  "truthy JUndefined = False"
| "truthy JNull = False"
| "truthy (JBool b) = b"
| "truthy (JNum n) = (n \<noteq> 0)"
| "truthy (JStr s) = (s \<noteq> [])"
| "truthy (JArr xs) = True"
| "truthy (JObj fs) = True"

text \<open>\<^verbatim>\<open>a || b\<close>\<close>

definition js_or :: "jsval \<Rightarrow> jsval \<Rightarrow> jsval" where
  "js_or a b = (if truthy a then a else b)"

text \<open>Reading a property of an object literal: \<^verbatim>\<open>undefined\<close> when it is missing.\<close>

definition obj_field :: "(string \<times> jsval) list \<Rightarrow> string \<Rightarrow> jsval" where
  "obj_field fs k = (case map_of fs k of None \<Rightarrow> JUndefined | Some v \<Rightarrow> v)"

text \<open>
  \<^verbatim>\<open>v.k\<close> for a key that no primitive and no array has (\<^verbatim>\<open>type\<close>, \<^verbatim>\<open>data\<close>): it throws
  on \<^verbatim>\<open>null\<close> and \<^verbatim>\<open>undefined\<close>, and is \<^verbatim>\<open>undefined\<close> on every other non-object.
\<close>

fun get_prop :: "jsval \<Rightarrow> string \<Rightarrow> js_error + jsval" where
  "get_prop JUndefined k = Inl TypeError"
| "get_prop JNull k = Inl TypeError"
| "get_prop (JObj fs) k = Inr (obj_field fs k)"
| "get_prop v k = Inr JUndefined"

subsection \<open>Strings\<close>

definition startsWith :: "string \<Rightarrow> string \<Rightarrow> bool" where
  "startsWith s p = (take (length p) s = p)"

definition endsWith :: "string \<Rightarrow> string \<Rightarrow> bool" where
  "endsWith s p = (length p \<le> length s \<and> drop (length s - length p) s = p)"

fun includes_str :: "string \<Rightarrow> string \<Rightarrow> bool" where
  "includes_str [] p = (p = [])"
| "includes_str (c # s) p = (if startsWith (c # s) p then True else includes_str s p)"

text \<open>\<^verbatim>\<open>s.indexOf(p)\<close>: the first position where \<open>p\<close> starts, \<open>-1\<close> when there is none.\<close>

fun indexOf :: "string \<Rightarrow> string \<Rightarrow> int" where
  "indexOf [] p = (if p = [] then 0 else - 1)"
| "indexOf (c # s) p =
     (if startsWith (c # s) p then 0
      else (let i = indexOf s p in if i < 0 then - 1 else i + 1))"

text \<open>
  \<^verbatim>\<open>s.substring(a, b)\<close> and \<^verbatim>\<open>s.substring(a)\<close>: arguments below 0 count as 0, above the
  length as the length, and the two are swapped when \<open>a > b\<close>.
\<close>

definition clamp_index :: "string \<Rightarrow> int \<Rightarrow> nat" where
  "clamp_index s i = min (nat i) (length s)"

definition substring :: "string \<Rightarrow> int \<Rightarrow> int \<Rightarrow> string" where
  "substring s a b =
     (let x = clamp_index s a; y = clamp_index s b
      in take (max x y - min x y) (drop (min x y) s))"

definition substring_from :: "string \<Rightarrow> int \<Rightarrow> string" where
  "substring_from s a = drop (clamp_index s a) s"

text \<open>\<^verbatim>\<open>s.replace(p, r)\<close> with a string pattern: the first occurrence only.\<close>

fun replace :: "string \<Rightarrow> string \<Rightarrow> string \<Rightarrow> string" where
  "replace [] p r = (if p = [] then r else [])"
| "replace (c # s) p r =
     (if startsWith (c # s) p then r @ drop (length p) (c # s) else c # replace s p r)"

text \<open>
  Three built-ins are parameters of the model, since what they return is fixed by the
  runtime's number format and Unicode tables: \<^verbatim>\<open>Number.prototype.toString\<close> (exponent
  form from \<open>10^21\<close>), \<^verbatim>\<open>String.prototype.toLowerCase\<close> and \<^verbatim>\<open>String.prototype.trim\<close>.
\<close>

record builtins =
  Number_toString :: "int \<Rightarrow> string"
  String_toLowerCase :: "string \<Rightarrow> string"
  String_trim :: "string \<Rightarrow> string"

fun join :: "string \<Rightarrow> string list \<Rightarrow> string" where
  "join sep [] = []"
| "join sep [x] = x"
| "join sep (x # y # ys) = x @ sep @ join sep (y # ys)"

text \<open>
  \<^verbatim>\<open>String(v)\<close>, which a template literal applies too. An array is joined with commas,
  its \<^verbatim>\<open>null\<close> and \<^verbatim>\<open>undefined\<close> elements as the empty string. An object is
  \<^verbatim>\<open>[object Object]\<close> by the method it inherits; an object that has a property
  \<^verbatim>\<open>toString\<close> of its own (a value of the frame, so nothing that can be called) has no
  string: \<^verbatim>\<open>String\<close> throws, also when the object is an element of an array.
\<close>

fun js_String :: "builtins \<Rightarrow> jsval \<Rightarrow> js_error + string"
  and js_elements :: "builtins \<Rightarrow> jsval list \<Rightarrow> js_error + string list" where
  "js_String B JUndefined = Inr ''undefined''"
| "js_String B JNull = Inr ''null''"
| "js_String B (JBool b) = Inr (if b then ''true'' else ''false'')"
| "js_String B (JNum n) = Inr (Number_toString B n)"
| "js_String B (JStr s) = Inr s"
| "js_String B (JArr xs) =
     (case js_elements B xs of Inl e \<Rightarrow> Inl e | Inr ss \<Rightarrow> Inr (join '','' ss))"
| "js_String B (JObj fs) =
     (if ''toString'' \<in> set (map fst fs) then Inl TypeError else Inr ''[object Object]'')"
| "js_elements B [] = Inr []"
| "js_elements B (x # xs) =
     (case (if x = JNull then Inr [] else if x = JUndefined then Inr [] else js_String B x) of
        Inl e \<Rightarrow> Inl e
      | Inr s \<Rightarrow> (case js_elements B xs of Inl e \<Rightarrow> Inl e | Inr ss \<Rightarrow> Inr (s # ss)))"

text \<open>What is built from \<^verbatim>\<open>String(v)\<close>, when it does not throw.\<close>

definition with_String :: "builtins \<Rightarrow> jsval \<Rightarrow> (string \<Rightarrow> 'a) \<Rightarrow> js_error + 'a" where
  "with_String B v f = (case js_String B v of Inl e \<Rightarrow> Inl e | Inr s \<Rightarrow> Inr (f s))"

section \<open>Core content items and Platform segments\<close>

text \<open>
  A Core content item (\<^verbatim>\<open>GsCoreMessage\<close>) is an object \<^verbatim>\<open>{ type, data }\<close>. The encoder
  builds such objects; the decoder reads whatever the frame held, so an item is a \<open>jsval\<close>.
\<close>

definition item :: "string \<Rightarrow> jsval \<Rightarrow> jsval" where
  "item t d = JObj [(''type'', JStr t), (''data'', d)]"

text \<open>
  The segments the decoder builds for \<^verbatim>\<open>send_msg\<close>: \<^verbatim>\<open>{type:'text', data:{text}}\<close>,
  \<^verbatim>\<open>{type:'image', data:{file}}\<close>, \<^verbatim>\<open>{type:'at', data:{qq}}\<close>, \<^verbatim>\<open>{type:'reply', data:{id}}\<close>,
  \<^verbatim>\<open>{type:'record', data:{file}}\<close> and \<^verbatim>\<open>{type:'node', data:{user_id, nickname, content}}\<close>.
\<close>

datatype out_segment =
    TextSeg string
  | ImageSeg string
  | AtSeg string
  | ReplySeg string
  | RecordSeg string
  | NodeSeg string string "out_segment list"

text \<open>The bytes of the literals \<^verbatim>\<open>[\<close>+U+6587 U+4EF6+\<^verbatim>\<open>: \<close> and of the node's nickname.\<close>

definition file_label :: string where
  "file_label = [CHR ''['', CHR 0xE6, CHR 0x96, CHR 0x87, CHR 0xE4, CHR 0xBB, CHR 0xB6,
                 CHR '':'', CHR '' '']"

definition node_user_id :: string where
  "node_user_id = ''3889929917''"

definition node_nickname :: string where
  "node_nickname = [CHR 0xF0, CHR 0x9F, CHR 0xA6, CHR 0x8A, CHR 0xE5, CHR 0xB0, CHR 0x8F,
                    CHR 0xE5, CHR 0x8A, CHR 0xA9, CHR 0xE6, CHR 0x89, CHR 0x8B]"

section \<open>Decoding: \<^verbatim>\<open>convertGsCoreToOB11\<close>\<close>

text \<open>
  The cases of the \<^verbatim>\<open>switch\<close> that build at most one segment from the item's type and
  payload. \<^verbatim>\<open>switch\<close> compares with \<^verbatim>\<open>===\<close>, so a type that is not a string reaches
  \<^verbatim>\<open>default\<close>. A case that takes \<^verbatim>\<open>String(msg.data)\<close> throws when that throws.
\<close>

definition convert_image :: "builtins \<Rightarrow> jsval \<Rightarrow> js_error + out_segment list" where
  "convert_image B d =
     with_String B d (\<lambda>imgData.
       if startsWith imgData ''base64://'' then [ImageSeg imgData]
       else if startsWith imgData ''link://'' then [ImageSeg (replace imgData ''link://'' [])]
       else if startsWith imgData ''http'' then [ImageSeg imgData]
       else [ImageSeg imgData])"

definition convert_file :: "builtins \<Rightarrow> jsval \<Rightarrow> js_error + out_segment list" where
  "convert_file B d =
     with_String B d (\<lambda>fileStr.
       let sepIdx = indexOf fileStr ''|'' in
       if sepIdx > 0 then
         (let fileName = substring fileStr 0 sepIdx;
              fileContent = substring_from fileStr (sepIdx + 1) in
          if startsWith fileContent ''link://''
          then [TextSeg (file_label @ fileName @ ''] '' @ replace fileContent ''link://'' [])]
          else [TextSeg (file_label @ fileName @ '']'')])
       else [])"

definition convert_default :: "jsval \<Rightarrow> out_segment list" where
  "convert_default d = (case d of JStr s \<Rightarrow> (if s \<noteq> [] then [TextSeg s] else []) | _ \<Rightarrow> [])"

definition convert_leaf :: "builtins \<Rightarrow> jsval \<Rightarrow> jsval \<Rightarrow> js_error + out_segment list" where
  "convert_leaf B ty d =
     (if ty = JStr ''text'' then with_String B d (\<lambda>s. [TextSeg s])
      else if ty = JStr ''image'' then convert_image B d
      else if ty = JStr ''at'' then with_String B d (\<lambda>s. [AtSeg s])
      else if ty = JStr ''reply'' then with_String B d (\<lambda>s. [ReplySeg s])
      else if ty = JStr ''record'' then with_String B d (\<lambda>s. [RecordSeg s])
      else if ty = JStr ''file'' then convert_file B d
      else if ty = JStr ''markdown'' then with_String B d (\<lambda>s. [TextSeg s])
      else if ty = JStr ''image_size'' then Inr []
      else if ty = JStr ''buttons'' \<or> ty = JStr ''template_buttons''
              \<or> ty = JStr ''template_markdown'' \<or> ty = JStr ''group'' then Inr []
      else Inr (convert_default d))"

lemma obj_field_size: "obj_field fs k = JArr subs \<Longrightarrow> size_list size subs < size (JObj fs)"
proof (induction fs)
  case Nil
  then show ?case by (simp add: obj_field_def)
next
  case (Cons f fs)
  obtain k' v where f: "f = (k', v)" by (cases f)
  show ?case
  proof (cases "k' = k")
    case True
    with Cons.prems f have "v = JArr subs" by (simp add: obj_field_def)
    with f show ?thesis by simp
  next
    case False
    with Cons.prems f have "obj_field fs k = JArr subs" by (simp add: obj_field_def)
    from Cons.IH [OF this] show ?thesis by simp
  qed
qed

lemma get_prop_size: "get_prop msg k = Inr (JArr subs) \<Longrightarrow> size_list size subs < size msg"
  by (cases msg) (auto dest: obj_field_size)

text \<open>
  The loop over \<^verbatim>\<open>content\<close>, and the inner loop of the \<^verbatim>\<open>node\<close> case, which decodes each
  sub-item by \<^verbatim>\<open>this.convertGsCoreToOB11([subMsg])\<close> and wraps a non-empty result in one
  node. Reading \<^verbatim>\<open>msg.type\<close> of a \<^verbatim>\<open>null\<close> element throws, and so may \<^verbatim>\<open>String\<close>; the
  exception leaves the function, so the result is the error.
\<close>

function convertGsCoreToOB11 :: "builtins \<Rightarrow> jsval list \<Rightarrow> js_error + out_segment list"
  and node_loop :: "builtins \<Rightarrow> jsval list \<Rightarrow> js_error + out_segment list" where
  "convertGsCoreToOB11 B [] = Inr []"
| "convertGsCoreToOB11 B (msg # content) =
     (case get_prop msg ''type'' of
        Inl e \<Rightarrow> Inl e
      | Inr ty \<Rightarrow>
         (case get_prop msg ''data'' of
            Inl e \<Rightarrow> Inl e
          | Inr d \<Rightarrow>
             (case (if \<not> truthy ty \<or> d = JNull \<or> d = JUndefined then Inr []
                    else if ty = JStr ''node''
                    then (case d of JArr subs \<Rightarrow> node_loop B subs | _ \<Rightarrow> Inr [])
                    else convert_leaf B ty d) of
                Inl e \<Rightarrow> Inl e
              | Inr segs \<Rightarrow>
                 (case convertGsCoreToOB11 B content of
                    Inl e \<Rightarrow> Inl e
                  | Inr rest \<Rightarrow> Inr (segs @ rest)))))"
| "node_loop B [] = Inr []"
| "node_loop B (subMsg # subs) =
     (case convertGsCoreToOB11 B [subMsg] of
        Inl e \<Rightarrow> Inl e
      | Inr ob11Segments \<Rightarrow>
         (case node_loop B subs of
            Inl e \<Rightarrow> Inl e
          | Inr rest \<Rightarrow>
             Inr ((if ob11Segments \<noteq> []
                   then [NodeSeg node_user_id node_nickname ob11Segments] else []) @ rest)))"
  by pat_completeness auto
termination
  by (relation "measures [(\<lambda>x. case x of Inl (B, c) \<Rightarrow> size_list size c
                                        | Inr (B, c) \<Rightarrow> size_list size c),
                          (\<lambda>x. case x of Inl c \<Rightarrow> 0 | Inr c \<Rightarrow> Suc 0)]")
     (auto dest: get_prop_size)

section \<open>Encoding: \<^verbatim>\<open>convertOB11ToGsCoreContent\<close>\<close>

text \<open>
  A Platform segment is \<^verbatim>\<open>{ type, data }\<close>, its \<^verbatim>\<open>data\<close> a record of attributes or
  missing. The message of an event is an array of segments, a plain string (the string
  post format) or missing.
\<close>

datatype in_segment = Segment (seg_type: string) (seg_data: "(string \<times> jsval) list option")

datatype message_field = NoMessage | MessageString string | MessageSegments "in_segment list"

record OB11Message =
  message_type :: string
  message :: message_field
  raw_message :: string
  self_id :: int
  message_id :: int
  group_id :: "int option"
  user_id :: int
  sender :: "(string \<times> jsval) list option"

text \<open>\<^verbatim>\<open>segData?.k\<close>\<close>

definition attr :: "(string \<times> jsval) list option \<Rightarrow> string \<Rightarrow> jsval" where
  "attr segData k = (case segData of None \<Rightarrow> JUndefined | Some fs \<Rightarrow> obj_field fs k)"

text \<open>The bytes of the literal \<^verbatim>\<open>[\<close>+U+8868 U+60C5+\<^verbatim>\<open>:\<close> of the face placeholder.\<close>

definition face_label :: string where
  "face_label = [CHR ''['', CHR 0xE8, CHR 0xA1, CHR 0xA8, CHR 0xE6, CHR 0x83, CHR 0x85, CHR '':'']"

text \<open>
  The body of the loop: the items one segment pushes. \<^verbatim>\<open>String(...)\<close> and the template
  literals of the \<^verbatim>\<open>at\<close>, \<^verbatim>\<open>reply\<close>, \<^verbatim>\<open>face\<close> and \<^verbatim>\<open>file\<close> cases may throw.
\<close>

definition convert_segment :: "builtins \<Rightarrow> in_segment \<Rightarrow> js_error + jsval list" where
  "convert_segment B seg =
     (let segData = seg_data seg; t = seg_type seg in
      if t = ''text'' then Inr [item ''text'' (js_or (attr segData ''text'') (JStr []))]
      else if t = ''image''
      then Inr [item ''image''
                  (js_or (js_or (attr segData ''url'') (attr segData ''file'')) (JStr []))]
      else if t = ''at''
      then with_String B (js_or (attr segData ''qq'') (JStr [])) (\<lambda>s. [item ''at'' (JStr s)])
      else if t = ''reply''
      then with_String B (js_or (attr segData ''id'') (JStr [])) (\<lambda>s. [item ''reply'' (JStr s)])
      else if t = ''face''
      then with_String B (js_or (attr segData ''id'') (JStr []))
             (\<lambda>s. [item ''text'' (JStr (face_label @ s @ '']''))])
      else if t = ''record''
      then Inr [item ''record''
                  (js_or (js_or (attr segData ''url'') (attr segData ''file'')) (JStr []))]
      else if t = ''file''
      then (case js_String B (js_or (attr segData ''name'') (JStr ''file'')) of
              Inl e \<Rightarrow> Inl e
            | Inr name \<Rightarrow>
                with_String B (js_or (attr segData ''url'') (JStr []))
                  (\<lambda>url. [item ''file'' (JStr (name @ ''|'' @ url))]))
      else if truthy (attr segData ''text'') then Inr [item ''text'' (attr segData ''text'')]
      else Inr [])"

fun convert_segments :: "builtins \<Rightarrow> in_segment list \<Rightarrow> js_error + jsval list" where
  "convert_segments B [] = Inr []"
| "convert_segments B (seg # segs) =
     (case convert_segment B seg of
        Inl e \<Rightarrow> Inl e
      | Inr items \<Rightarrow>
          (case convert_segments B segs of
             Inl e \<Rightarrow> Inl e
           | Inr others \<Rightarrow> Inr (items @ others)))"

definition convertOB11ToGsCoreContent :: "builtins \<Rightarrow> OB11Message \<Rightarrow> js_error + jsval list" where
  "convertOB11ToGsCoreContent B event =
     (case message event of
        MessageSegments segs \<Rightarrow> convert_segments B segs
      | _ \<Rightarrow> Inr (if raw_message event \<noteq> [] then [item ''text'' (JStr (raw_message event))]
                  else []))"

section \<open>Dispatch of a received envelope: \<^verbatim>\<open>handleGsCoreMessage\<close>\<close>

text \<open>
  The logger and the platform's \<^verbatim>\<open>send_msg\<close> action are collaborators of the host. A
  log call is recorded as its level and which line it is, with the values the line
  prints; a \<^verbatim>\<open>send_msg\<close> call is recorded with its parameters.
\<close>

datatype log_level = Debug | Info | Warn | Error

datatype log_event =
    ConnectingLog
  | ConnectedLog
  | ReceivedLog "string option" "string option"
  | ParseFailedLog
  | SocketErrorLog string
  | ClosedLog int string
  | CreateFailedLog
  | ReconnectLimitLog int
  | ReconnectInLog int int "int option"
  | ReplyFetchedLog
  | ReplyImageLog string
  | ReplyFailedLog
  | ForwardedLog string
  | ForwardFailedLog
  | EmptyMessageLog
  | GsLogLine string
  | GsLogSuccess string
  | GsLogLevel string string
  | NoTargetLog
  | EmptyConvertedLog
  | SentPrivateLog string
  | SentGroupLog string
  | SendFailedLog

record OB11PostSendMsg =
  send_message :: "out_segment list"
  send_message_type :: string
  send_user_id :: "string option"
  send_group_id :: "string option"

datatype effect = Log log_level log_event | SendMsg OB11PostSendMsg

record GsCoreMessageSend =
  bot_id :: string
  bot_self_id :: string
  msg_id :: string
  target_type :: "string option"
  target_id :: "string option"
  content :: "jsval list option"

text \<open>
  The \<^verbatim>\<open>switch (level)\<close> of the log passthrough: \<open>t\<close> is the first item's type, \<open>d\<close>
  its payload. \<open>GsLogLine\<close> is the line \<^verbatim>\<open>[GScore Log] <data>\<close>, \<open>GsLogSuccess\<close> the
  same with the check mark before the data, \<open>GsLogLevel\<close> the line \<^verbatim>\<open>[GScore Log] [<level>] <data>\<close>.
  \<^verbatim>\<open>String(firstMsg.data || '')\<close> is outside every \<^verbatim>\<open>try\<close>: when it throws there is no line.
\<close>

definition log_passthrough :: "builtins \<Rightarrow> string \<Rightarrow> jsval \<Rightarrow> js_error + effect" where
  "log_passthrough B t d =
     (let level = String_toLowerCase B (replace t ''log_'' []) in
      with_String B (js_or d (JStr []))
        (\<lambda>logData.
           if level = ''info'' then Log Info (GsLogLine logData)
           else if level = ''warning'' then Log Warn (GsLogLine logData)
           else if level = ''error'' then Log Error (GsLogLine logData)
           else if level = ''success'' then Log Info (GsLogSuccess logData)
           else Log Debug (GsLogLevel level logData)))"

text \<open>
  The \<^verbatim>\<open>try\<close> block: decode, drop an empty result, send to the target. \<open>send_msg\<close> tells
  whether the platform's call resolves; when it rejects, or the decoder throws, the
  \<^verbatim>\<open>catch\<close> logs the failure.
\<close>

definition deliver ::
  "builtins \<Rightarrow> (OB11PostSendMsg \<Rightarrow> bool) \<Rightarrow> string option \<Rightarrow> string \<Rightarrow> jsval list
     \<Rightarrow> effect list" where
  "deliver B send_msg ttype tid items =
     (case convertGsCoreToOB11 B items of
        Inl e \<Rightarrow> [Log Error SendFailedLog]
      | Inr ob11Message \<Rightarrow>
         (if ob11Message = [] then [Log Debug EmptyConvertedLog]
          else if ttype = Some ''direct'' then
            (let params = \<lparr>send_message = ob11Message, send_message_type = ''private'',
                            send_user_id = Some tid, send_group_id = None\<rparr> in
             SendMsg params #
               (if send_msg params then [Log Debug (SentPrivateLog tid)]
                else [Log Error SendFailedLog]))
          else
            (let params = \<lparr>send_message = ob11Message, send_message_type = ''group'',
                            send_user_id = None, send_group_id = Some tid\<rparr> in
             SendMsg params #
               (if send_msg params then [Log Debug (SentGroupLog tid)]
                else [Log Error SendFailedLog]))))"

text \<open>What follows the log check: the \<^verbatim>\<open>!target_id\<close> guard, then the \<^verbatim>\<open>try\<close> block.\<close>

definition to_target ::
  "builtins \<Rightarrow> (OB11PostSendMsg \<Rightarrow> bool) \<Rightarrow> string option \<Rightarrow> string option \<Rightarrow> jsval list
     \<Rightarrow> effect list" where
  "to_target B send_msg ttype target items =
     (case target of
        None \<Rightarrow> [Log Warn NoTargetLog]
      | Some t \<Rightarrow>
         (if t = [] then [Log Warn NoTargetLog]
          else deliver B send_msg ttype t items))"

text \<open>
  The function is \<^verbatim>\<open>async\<close> and nothing awaits it: an exception before the \<^verbatim>\<open>try\<close>
  block (reading \<^verbatim>\<open>type\<close> of a \<^verbatim>\<open>null\<close> first item, \<^verbatim>\<open>startsWith\<close> of a type that is
  not a string, or \<^verbatim>\<open>String\<close> of a log payload that has no string) rejects its promise,
  with no log and no send. That is \<open>Inl\<close>.
\<close>

definition handleGsCoreMessage ::
  "builtins \<Rightarrow> (OB11PostSendMsg \<Rightarrow> bool) \<Rightarrow> GsCoreMessageSend \<Rightarrow> js_error + effect list" where
  "handleGsCoreMessage B send_msg msgSend =
     (case content msgSend of
        None \<Rightarrow> Inr [Log Debug EmptyMessageLog]
      | Some [] \<Rightarrow> Inr [Log Debug EmptyMessageLog]
      | Some (firstMsg # others) \<Rightarrow>
         (case get_prop firstMsg ''type'' of
            Inl e \<Rightarrow> Inl e
          | Inr ty \<Rightarrow>
             (if truthy ty then
                (case ty of
                   JStr t \<Rightarrow>
                     (if startsWith t ''log_''
                      then (case get_prop firstMsg ''data'' of
                              Inl e \<Rightarrow> Inl e
                            | Inr d \<Rightarrow>
                                (case log_passthrough B t d of
                                   Inl e \<Rightarrow> Inl e
                                 | Inr line \<Rightarrow> Inr [line]))
                      else Inr (to_target B send_msg (target_type msgSend) (target_id msgSend)
                                  (firstMsg # others)))
                 | _ \<Rightarrow> Inl TypeError)
              else Inr (to_target B send_msg (target_type msgSend) (target_id msgSend)
                          (firstMsg # others)))))"

text \<open>The \<^verbatim>\<open>send_msg\<close> calls among the effects.\<close>

fun sends :: "effect list \<Rightarrow> OB11PostSendMsg list" where
  "sends [] = []"
| "sends (Log l e # es) = sends es"
| "sends (SendMsg p # es) = p # sends es"

text \<open>
  Notions the claims about dispatch are stated with. The kind of a first item is not a
  log kind when it is a string without the \<^verbatim>\<open>log_\<close> prefix, or \<^verbatim>\<open>null\<close> or missing (the
  interface \<^verbatim>\<open>GsCoreMessage\<close> has \<^verbatim>\<open>type: string | null\<close>). The two \<^verbatim>\<open>send_msg\<close> calls.
\<close>

definition non_log_kind :: "jsval \<Rightarrow> bool" where
  "non_log_kind ty =
     (case ty of JStr t \<Rightarrow> \<not> startsWith t ''log_'' | JNull \<Rightarrow> True | JUndefined \<Rightarrow> True
      | _ \<Rightarrow> False)"

definition private_call :: "string \<Rightarrow> out_segment list \<Rightarrow> OB11PostSendMsg" where
  "private_call tid segs =
     \<lparr>send_message = segs, send_message_type = ''private'', send_user_id = Some tid,
      send_group_id = None\<rparr>"

definition group_call :: "string \<Rightarrow> out_segment list \<Rightarrow> OB11PostSendMsg" where
  "group_call tid segs =
     \<lparr>send_message = segs, send_message_type = ''group'', send_user_id = None,
      send_group_id = Some tid\<rparr>"

section \<open>The connection: state of \<^verbatim>\<open>GScoreService\<close>\<close>

text \<open>
  The fields of the configuration that the service reads. \<^verbatim>\<open>reconnectInterval\<close> and
  \<^verbatim>\<open>maxReconnectAttempts\<close> may be missing (\<^verbatim>\<open>??\<close> supplies the defaults).
\<close>

record PluginConfig =
  gscoreUrl :: string
  gscoreToken :: string
  gscoreEnable :: bool
  reconnectInterval :: "int option"
  maxReconnectAttempts :: "int option"

text \<open>
  The classes of the runtime that \<^verbatim>\<open>connect\<close> uses are parameters of the model:
  \<^verbatim>\<open>new URL(s)\<close> (\<open>None\<close> when it throws), \<^verbatim>\<open>searchParams.has\<close>, \<^verbatim>\<open>searchParams.append\<close>,
  \<^verbatim>\<open>toString\<close>, and whether \<^verbatim>\<open>new WebSocket(s)\<close> returns a socket (\<open>False\<close>: it throws).
\<close>

record 'u runtime =
  URL_new :: "string \<Rightarrow> 'u option"
  searchParams_has :: "'u \<Rightarrow> string \<Rightarrow> bool"
  searchParams_append :: "'u \<Rightarrow> string \<Rightarrow> string \<Rightarrow> 'u"
  URL_toString :: "'u \<Rightarrow> string"
  WebSocket_new :: "string \<Rightarrow> bool"

datatype ready_state = CONNECTING | OPEN | CLOSING | CLOSED

datatype timer_state = Pending | Fired | Cleared

text \<open>The frame \<^verbatim>\<open>forwardMessage\<close> sends upstream (\<^verbatim>\<open>messageReceive\<close>).\<close>

record MessageReceive =
  mr_bot_id :: string
  mr_bot_self_id :: string
  mr_msg_id :: string
  mr_user_type :: string
  mr_group_id :: "string option"
  mr_user_id :: string
  mr_sender :: "(string \<times> jsval) list"
  mr_user_pm :: int
  mr_content :: "jsval list"

text \<open>
  The service object, with the objects it has created: \<open>sockets\<close> holds every
  \<^verbatim>\<open>WebSocket\<close> constructed so far (its URL and \<^verbatim>\<open>readyState\<close>), \<open>timers\<close> every timer set
  (the delay given to \<^verbatim>\<open>setTimeout\<close>, and whether it is still pending). \<open>ws\<close> and
  \<open>reconnectTimer\<close> are the service's handles: indices into the two stores. \<open>logged\<close>
  and \<open>frames\<close> record the log calls and the frames given to \<^verbatim>\<open>ws.send\<close>.
\<close>

record service =
  sockets :: "(string \<times> ready_state) list"
  timers :: "(int \<times> timer_state) list"
  ws :: "nat option"
  reconnectTimer :: "nat option"
  isConnecting :: bool
  reconnectAttempts :: int
  logged :: "(log_level \<times> log_event) list"
  frames :: "(nat \<times> MessageReceive) list"

definition initial :: service where
  "initial = \<lparr>sockets = [], timers = [], ws = None, reconnectTimer = None,
              isConnecting = False, reconnectAttempts = 0, logged = [], frames = []\<rparr>"

definition log_line :: "log_level \<Rightarrow> log_event \<Rightarrow> service \<Rightarrow> service" where
  "log_line l e s = s\<lparr>logged := logged s @ [(l, e)]\<rparr>"

text \<open>\<^verbatim>\<open>this.ws?.readyState\<close>\<close>

definition readyState :: "service \<Rightarrow> ready_state option" where
  "readyState s =
     (case ws s of
        None \<Rightarrow> None
      | Some i \<Rightarrow> (if i < length (sockets s) then Some (snd (sockets s ! i)) else None))"

datatype status = Connected | Connecting | Disconnected

definition getStatus :: "service \<Rightarrow> status" where
  "getStatus s =
     (if readyState s = Some OPEN then Connected
      else if isConnecting s \<or> readyState s = Some CONNECTING then Connecting
      else Disconnected)"

text \<open>\<^verbatim>\<open>clearTimeout\<close>: a pending timer will not fire; any other is left as it is.\<close>

definition clearTimeout :: "(int \<times> timer_state) list \<Rightarrow> nat \<Rightarrow> (int \<times> timer_state) list" where
  "clearTimeout ts t =
     (if t < length ts \<and> snd (ts ! t) = Pending then ts[t := (fst (ts ! t), Cleared)] else ts)"

text \<open>
  \<^verbatim>\<open>WebSocket.close()\<close>: nothing on a closed socket; any other socket is closing from
  then on, and its \<^verbatim>\<open>close\<close> event is emitted later.
\<close>

definition close_socket :: "(string \<times> ready_state) list \<Rightarrow> nat \<Rightarrow> (string \<times> ready_state) list" where
  "close_socket ss i =
     (if i < length ss \<and> snd (ss ! i) \<noteq> CLOSED then ss[i := (fst (ss ! i), CLOSING)] else ss)"

definition set_ready :: "nat \<Rightarrow> ready_state \<Rightarrow> service \<Rightarrow> service" where
  "set_ready i r s =
     (if i < length (sockets s) then s\<lparr>sockets := (sockets s)[i := (fst (sockets s ! i), r)]\<rparr>
      else s)"

subsection \<open>\<^verbatim>\<open>disconnect\<close> and \<^verbatim>\<open>scheduleReconnect\<close>\<close>

definition disconnect :: "service \<Rightarrow> service" where
  "disconnect s =
     (let s1 = (case reconnectTimer s of
                  None \<Rightarrow> s
                | Some t \<Rightarrow> s\<lparr>timers := clearTimeout (timers s) t, reconnectTimer := None\<rparr>);
          s2 = (case ws s1 of
                  None \<Rightarrow> s1
                | Some i \<Rightarrow> s1\<lparr>sockets := close_socket (sockets s1) i, ws := None\<rparr>)
      in s2\<lparr>isConnecting := False, reconnectAttempts := 0\<rparr>)"

text \<open>
  \<^verbatim>\<open>maxReconnectAttempts ?? 10\<close> and \<^verbatim>\<open>reconnectInterval ?? 5000\<close>, and the test that stops
  the reconnection: \<^verbatim>\<open>maxAttempts > 0 && this.reconnectAttempts >= maxAttempts\<close>.
\<close>

definition max_attempts :: "PluginConfig \<Rightarrow> int" where
  "max_attempts cfg = (case maxReconnectAttempts cfg of None \<Rightarrow> 10 | Some m \<Rightarrow> m)"

definition interval_ms :: "PluginConfig \<Rightarrow> int" where
  "interval_ms cfg = (case reconnectInterval cfg of None \<Rightarrow> 5000 | Some i \<Rightarrow> i)"

definition exhausted :: "PluginConfig \<Rightarrow> service \<Rightarrow> bool" where
  "exhausted cfg s = (0 < max_attempts cfg \<and> max_attempts cfg \<le> reconnectAttempts s)"

text \<open>
  \<^verbatim>\<open>setTimeout\<close> adds a pending timer to the store and returns its handle. The handle is
  assigned over the previous one, which is not cleared.
\<close>

definition scheduleReconnect :: "PluginConfig \<Rightarrow> service \<Rightarrow> service" where
  "scheduleReconnect cfg s =
     (if \<not> gscoreEnable cfg then s
      else
        (let maxAttempts = max_attempts cfg in
         if exhausted cfg s
         then log_line Error (ReconnectLimitLog maxAttempts) s
         else
           (let interval = interval_ms cfg;
                s1 = log_line Info
                       (ReconnectInLog interval (reconnectAttempts s + 1)
                          (if maxAttempts > 0 then Some maxAttempts else None)) s
            in s1\<lparr>timers := timers s1 @ [(interval, Pending)],
                  reconnectTimer := Some (length (timers s1))\<rparr>)))"

subsection \<open>\<^verbatim>\<open>connect\<close>\<close>

text \<open>Lines 58 to 69: the default, the trailing slash, the routing suffix.\<close>

definition routed_url :: "PluginConfig \<Rightarrow> string" where
  "routed_url cfg =
     (let url0 = (if gscoreUrl cfg = [] then ''ws://localhost:8765'' else gscoreUrl cfg);
          url1 = (if endsWith url0 ''/'' then butlast url0 else url0)
      in if \<not> includes_str url1 ''/ws/'' then url1 @ ''/ws/napcat'' else url1)"

text \<open>
  The specification speaks of a \<^verbatim>\<open>/ws/\<close> path segment. The path of a URL text is what
  follows the authority, up to the query or the fragment; \<open>has_ws_segment\<close> is the
  specification's condition, to be compared with the test of \<open>routed_url\<close>.
\<close>

definition url_path :: "string \<Rightarrow> string" where
  "url_path u =
     (let rest = (if includes_str u ''://'' then substring_from u (indexOf u ''://'' + 3) else u)
      in dropWhile (\<lambda>c. c \<noteq> CHR ''/'')
           (takeWhile (\<lambda>c. c \<noteq> CHR ''?'' \<and> c \<noteq> CHR ''#'') rest))"

definition has_ws_segment :: "string \<Rightarrow> bool" where
  "has_ws_segment u = includes_str (url_path u) ''/ws/''"

text \<open>Lines 71 to 77 and \<^verbatim>\<open>wsUrl.toString()\<close>; \<open>Inl\<close> when \<^verbatim>\<open>new URL\<close> throws.\<close>

definition socket_url :: "'u runtime \<Rightarrow> PluginConfig \<Rightarrow> js_error + string" where
  "socket_url R cfg =
     (let token = gscoreToken cfg in
      case URL_new R (routed_url cfg) of
        None \<Rightarrow> Inl TypeError
      | Some wsUrl \<Rightarrow>
          Inr (URL_toString R
                 (if token \<noteq> [] \<and> \<not> searchParams_has R wsUrl ''token''
                  then searchParams_append R wsUrl ''token'' token else wsUrl)))"

text \<open>
  A call either returns or lets an exception escape; in both cases the assignments made
  so far stay.
\<close>

datatype completion = Returns service | Throws js_error service

fun state_of :: "completion \<Rightarrow> service" where
  "state_of (Returns s) = s"
| "state_of (Throws e s) = s"

text \<open>
  \<^verbatim>\<open>new URL\<close> stands before the \<^verbatim>\<open>try\<close>: its exception leaves \<^verbatim>\<open>connect\<close> with
  \<^verbatim>\<open>isConnecting\<close> set. An exception of \<^verbatim>\<open>new WebSocket\<close> is caught.
\<close>

definition connect :: "'u runtime \<Rightarrow> PluginConfig \<Rightarrow> service \<Rightarrow> completion" where
  "connect R cfg s =
     (if \<not> gscoreEnable cfg then Returns (disconnect s)
      else if readyState s = Some OPEN \<or> isConnecting s then Returns s
      else
        (let s1 = s\<lparr>isConnecting := True\<rparr> in
         case socket_url R cfg of
           Inl e \<Rightarrow> Throws e s1
         | Inr u \<Rightarrow>
             (let s2 = log_line Info ConnectingLog s1 in
              if WebSocket_new R u
              then Returns (s2\<lparr>sockets := sockets s2 @ [(u, CONNECTING)],
                                ws := Some (length (sockets s2))\<rparr>)
              else Returns (scheduleReconnect cfg
                              ((log_line Error CreateFailedLog s2)\<lparr>isConnecting := False\<rparr>)))))"

subsection \<open>The handlers \<^verbatim>\<open>connect\<close> registers, and the timer's callback\<close>

text \<open>
  Each handler is a closure over the service, not over the socket it is registered on:
  it runs on the service's fields whichever socket emits the event. The transport has
  set the socket's \<^verbatim>\<open>readyState\<close> when it emits \<^verbatim>\<open>open\<close> (\<open>OPEN\<close>) or \<^verbatim>\<open>close\<close> (\<open>CLOSED\<close>).
\<close>

definition on_open :: "nat \<Rightarrow> service \<Rightarrow> service" where
  "on_open i s =
     (let s1 = (log_line Info ConnectedLog (set_ready i OPEN s))
                 \<lparr>isConnecting := False, reconnectAttempts := 0\<rparr>
      in case reconnectTimer s1 of
           None \<Rightarrow> s1
         | Some t \<Rightarrow> s1\<lparr>timers := clearTimeout (timers s1) t, reconnectTimer := None\<rparr>)"

definition on_error :: "string \<Rightarrow> service \<Rightarrow> service" where
  "on_error msg s = log_line Error (SocketErrorLog msg) s"

definition on_close :: "PluginConfig \<Rightarrow> nat \<Rightarrow> int \<Rightarrow> string \<Rightarrow> service \<Rightarrow> service" where
  "on_close cfg i code reason s =
     scheduleReconnect cfg
       (log_line Warn (ClosedLog code reason)
          ((set_ready i CLOSED s)\<lparr>isConnecting := False, ws := None\<rparr>))"

text \<open>
  The \<^verbatim>\<open>message\<close> handler: \<open>parsed\<close> is what \<^verbatim>\<open>JSON.parse\<close> made of the frame, \<open>None\<close>
  when it threw (or gave \<^verbatim>\<open>null\<close>, whose fields cannot be read). The effects of
  \<^verbatim>\<open>handleGsCoreMessage\<close>, which nothing awaits, are returned beside the state.
\<close>

definition on_message ::
  "builtins \<Rightarrow> (OB11PostSendMsg \<Rightarrow> bool) \<Rightarrow> GsCoreMessageSend option \<Rightarrow> service
     \<Rightarrow> service \<times> (js_error + effect list)" where
  "on_message B send_msg parsed s =
     (case parsed of
        None \<Rightarrow> (log_line Error ParseFailedLog s, Inr [])
      | Some msgSend \<Rightarrow>
          (log_line Debug (ReceivedLog (target_type msgSend) (target_id msgSend)) s,
           handleGsCoreMessage B send_msg msgSend))"

text \<open>The callback of the timer \<open>t\<close>; a timer that was cleared, or has fired, does not fire.\<close>

definition timer_fires :: "'u runtime \<Rightarrow> PluginConfig \<Rightarrow> nat \<Rightarrow> service \<Rightarrow> completion" where
  "timer_fires R cfg t s =
     (if t < length (timers s) \<and> snd (timers s ! t) = Pending
      then connect R cfg
             (s\<lparr>timers := (timers s)[t := (fst (timers s ! t), Fired)],
                reconnectAttempts := reconnectAttempts s + 1\<rparr>)
      else Returns s)"

text \<open>What can happen to the service, one after the other, on the single event loop.\<close>

datatype event =
    CallConnect
  | CallDisconnect
  | SocketOpen nat
  | SocketError nat string
  | SocketClose nat int string
  | TimerFires nat

fun step :: "'u runtime \<Rightarrow> PluginConfig \<Rightarrow> event \<Rightarrow> service \<Rightarrow> completion" where
  "step R cfg CallConnect s = connect R cfg s"
| "step R cfg CallDisconnect s = Returns (disconnect s)"
| "step R cfg (SocketOpen i) s = Returns (on_open i s)"
| "step R cfg (SocketError i msg) s = Returns (on_error msg s)"
| "step R cfg (SocketClose i code reason) s = Returns (on_close cfg i code reason s)"
| "step R cfg (TimerFires t) s = timer_fires R cfg t s"

fun run :: "'u runtime \<Rightarrow> PluginConfig \<Rightarrow> event list \<Rightarrow> service \<Rightarrow> service" where
  "run R cfg [] s = s"
| "run R cfg (e # es) s = run R cfg es (state_of (step R cfg e s))"

text \<open>
  What the transport and the timers can do: a socket opens while it is connecting, it
  emits \<^verbatim>\<open>error\<close> or \<^verbatim>\<open>close\<close> while it is not closed yet, a timer fires while it is
  pending. A run is possible when each of its events is, in the state it meets.
\<close>

fun possible :: "event \<Rightarrow> service \<Rightarrow> bool" where
  "possible CallConnect s = True"
| "possible CallDisconnect s = True"
| "possible (SocketOpen i) s = (i < length (sockets s) \<and> snd (sockets s ! i) = CONNECTING)"
| "possible (SocketError i msg) s = (i < length (sockets s) \<and> snd (sockets s ! i) \<noteq> CLOSED)"
| "possible (SocketClose i code reason) s =
     (i < length (sockets s) \<and> snd (sockets s ! i) \<noteq> CLOSED)"
| "possible (TimerFires t) s = (t < length (timers s) \<and> snd (timers s ! t) = Pending)"

fun possible_run :: "'u runtime \<Rightarrow> PluginConfig \<Rightarrow> event list \<Rightarrow> service \<Rightarrow> bool" where
  "possible_run R cfg [] s = True"
| "possible_run R cfg (e # es) s =
     (if possible e s then possible_run R cfg es (state_of (step R cfg e s)) else False)"

text \<open>The sockets that are connecting or open, and the timers still pending.\<close>

definition live_sockets :: "service \<Rightarrow> nat list" where
  "live_sockets s =
     filter (\<lambda>i. snd (sockets s ! i) = CONNECTING \<or> snd (sockets s ! i) = OPEN)
       [0 ..< length (sockets s)]"

definition pending_timers :: "service \<Rightarrow> nat list" where
  "pending_timers s = filter (\<lambda>t. snd (timers s ! t) = Pending) [0 ..< length (timers s)]"

section \<open>Forwarding a Platform event: \<^verbatim>\<open>forwardMessage\<close>\<close>

text \<open>\<^verbatim>\<open>event.message.find((seg) => seg.type === 'reply')\<close>, when the message is an array.\<close>

definition reply_segment :: "OB11Message \<Rightarrow> in_segment option" where
  "reply_segment event =
     (case message event of
        MessageSegments segs \<Rightarrow> find (\<lambda>seg. seg_type seg = ''reply'') segs
      | _ \<Rightarrow> None)"

text \<open>The loop over the quoted message: the trimmed, non-empty URL of each image.\<close>

fun quoted_images :: "builtins \<Rightarrow> in_segment list \<Rightarrow> string list" where
  "quoted_images B [] = []"
| "quoted_images B (seg # segs) =
     (if seg_type seg = ''image'' then
        (case js_or (attr (seg_data seg) ''url'') (attr (seg_data seg) ''file'') of
           JStr url \<Rightarrow> (if String_trim B url \<noteq> [] then [String_trim B url] else [])
         | _ \<Rightarrow> [])
      else []) @ quoted_images B segs"

text \<open>
  The reply enrichment: the items it appends and the lines it logs. \<open>get_msg\<close> is the
  platform's action (\<open>Inl\<close>: it rejects; \<open>Inr None\<close>: it resolves with nothing).
\<close>

definition enrich ::
  "builtins \<Rightarrow> (jsval \<Rightarrow> js_error + OB11Message option) \<Rightarrow> OB11Message
     \<Rightarrow> jsval list \<times> (log_level \<times> log_event) list" where
  "enrich B get_msg event =
     (case reply_segment event of
        None \<Rightarrow> ([], [])
      | Some replySeg \<Rightarrow>
          (let replyId = attr (seg_data replySeg) ''id'' in
           if truthy replyId then
             (case get_msg replyId of
                Inl e \<Rightarrow> ([], [(Warn, ReplyFailedLog)])
              | Inr replyMsg \<Rightarrow>
                  (case replyMsg of
                     None \<Rightarrow> ([], [(Debug, ReplyFetchedLog)])
                   | Some r \<Rightarrow>
                       (case message r of
                          MessageSegments segs \<Rightarrow>
                            (map (\<lambda>url. item ''image'' (JStr url)) (quoted_images B segs),
                             (Debug, ReplyFetchedLog)
                               # map (\<lambda>url. (Debug, ReplyImageLog url)) (quoted_images B segs))
                        | _ \<Rightarrow> ([], [(Debug, ReplyFetchedLog)]))))
           else ([], [])))"

text \<open>Writing a property of an object literal after a spread.\<close>

fun set_field :: "string \<Rightarrow> jsval \<Rightarrow> (string \<times> jsval) list \<Rightarrow> (string \<times> jsval) list" where
  "set_field k v [] = [(k, v)]"
| "set_field k v (f # fs) = (if fst f = k then (k, v) # fs else f # set_field k v fs)"

definition user_pm :: "(string \<times> jsval) list option \<Rightarrow> int" where
  "user_pm sd =
     (case sd of
        None \<Rightarrow> 6
      | Some fs \<Rightarrow>
          (if obj_field fs ''role'' = JStr ''owner'' then 2
           else if obj_field fs ''role'' = JStr ''admin'' then 3 else 6))"

text \<open>
  The \<^verbatim>\<open>sender\<close> of the envelope: the event's, its \<^verbatim>\<open>user_id\<close> as a string and its
  \<^verbatim>\<open>nickname\<close> filled in. \<^verbatim>\<open>String(sender.user_id)\<close> may throw.
\<close>

definition sender_object :: "builtins \<Rightarrow> OB11Message \<Rightarrow> js_error + (string \<times> jsval) list" where
  "sender_object B event =
     (case sender event of
        None \<Rightarrow> Inr []
      | Some fs \<Rightarrow>
          (case (if truthy (obj_field fs ''user_id'') then js_String B (obj_field fs ''user_id'')
                 else Inr (Number_toString B (user_id event))) of
             Inl e \<Rightarrow> Inl e
           | Inr uid \<Rightarrow>
               Inr (set_field ''nickname''
                      (js_or (js_or (obj_field fs ''nickname'') (obj_field fs ''card'')) (JStr []))
                      (set_field ''user_id'' (JStr uid) fs))))"

definition messageReceive ::
  "builtins \<Rightarrow> string \<Rightarrow> OB11Message \<Rightarrow> jsval list \<Rightarrow> js_error + MessageReceive" where
  "messageReceive B selfId event items =
     (case js_String B (js_or (js_or (JStr selfId) (JNum (self_id event))) (JStr [])) of
        Inl e \<Rightarrow> Inl e
      | Inr botSelfId \<Rightarrow>
          (case js_String B (js_or (JNum (message_id event)) (JStr [])) of
             Inl e \<Rightarrow> Inl e
           | Inr msgId \<Rightarrow>
               (case sender_object B event of
                  Inl e \<Rightarrow> Inl e
                | Inr senderObject \<Rightarrow>
                    Inr \<lparr>mr_bot_id = ''onebot'',
                         mr_bot_self_id = botSelfId,
                         mr_msg_id = msgId,
                         mr_user_type =
                           (if message_type event = ''group'' then ''group'' else ''direct''),
                         mr_group_id =
                           (case group_id event of
                              None \<Rightarrow> None
                            | Some g \<Rightarrow> (if g \<noteq> 0 then Some (Number_toString B g) else None)),
                         mr_user_id = Number_toString B (user_id event),
                         mr_sender = senderObject,
                         mr_user_pm = user_pm (sender event),
                         mr_content = items\<rparr>)))"

text \<open>
  \<open>selfId\<close> is \<^verbatim>\<open>pluginState.selfId\<close>. The function is taken as one step of the event
  loop (the one \<^verbatim>\<open>await\<close>, of \<^verbatim>\<open>get_msg\<close>, is only reached with a reply segment). An
  exception of the encoder, or of building the envelope, is caught by the outer
  \<^verbatim>\<open>try\<close>, which logs it; no frame is sent then.
\<close>

definition forwardMessage ::
  "builtins \<Rightarrow> string \<Rightarrow> (jsval \<Rightarrow> js_error + OB11Message option) \<Rightarrow> OB11Message \<Rightarrow> service
     \<Rightarrow> service" where
  "forwardMessage B selfId get_msg event s =
     (if getStatus s \<noteq> Connected then s
      else if message_type event \<noteq> ''group'' \<and> message_type event \<noteq> ''private'' then s
      else
        (case convertOB11ToGsCoreContent B event of
           Inl e \<Rightarrow> log_line Error ForwardFailedLog s
         | Inr converted \<Rightarrow>
             (let items = converted @ fst (enrich B get_msg event);
                  s1 = s\<lparr>logged := logged s @ snd (enrich B get_msg event)\<rparr>
              in case messageReceive B selfId event items of
                   Inl e \<Rightarrow> log_line Error ForwardFailedLog s1
                 | Inr m \<Rightarrow>
                     (let s2 = (case ws s1 of
                                  None \<Rightarrow> s1
                                | Some i \<Rightarrow> s1\<lparr>frames := frames s1 @ [(i, m)]\<rparr>)
                      in log_line Debug (ForwardedLog (mr_user_type m)) s2))))"

section \<open>A runtime to run the model on\<close>

text \<open>
  An instance of the runtime's classes for plain URLs (no fragment, no escapes): a URL
  is the text before the first \<^verbatim>\<open>?\<close> and the list of its query parameters;
  \<^verbatim>\<open>new URL\<close> throws when the text has no scheme, \<^verbatim>\<open>new WebSocket\<close> when the scheme is
  not \<^verbatim>\<open>ws\<close> or \<^verbatim>\<open>wss\<close>.
\<close>

fun split_first :: "char \<Rightarrow> string \<Rightarrow> string \<times> string option" where
  "split_first c [] = ([], None)"
| "split_first c (x # xs) =
     (if x = c then ([], Some xs)
      else (case split_first c xs of (a, b) \<Rightarrow> (x # a, b)))"

fun split_all :: "char \<Rightarrow> string \<Rightarrow> string list" where
  "split_all c [] = [[]]"
| "split_all c (x # xs) =
     (if x = c then [] # split_all c xs
      else (case split_all c xs of [] \<Rightarrow> [[x]] | p # ps \<Rightarrow> (x # p) # ps))"

definition parse_query :: "string \<Rightarrow> (string \<times> string) list" where
  "parse_query q =
     map (\<lambda>kv. case split_first CHR ''='' kv of (k, v) \<Rightarrow> (k, case v of None \<Rightarrow> [] | Some w \<Rightarrow> w))
       (filter (\<lambda>kv. kv \<noteq> []) (split_all CHR ''&'' q))"

definition plain_runtime :: "(string \<times> (string \<times> string) list) runtime" where
  "plain_runtime =
     \<lparr>URL_new = (\<lambda>s. if includes_str s ''://''
                      then (case split_first CHR ''?'' s of
                              (b, q) \<Rightarrow> Some (b, case q of None \<Rightarrow> [] | Some t \<Rightarrow> parse_query t))
                      else None),
      searchParams_has = (\<lambda>u k. k \<in> set (map fst (snd u))),
      searchParams_append = (\<lambda>u k v. (fst u, snd u @ [(k, v)])),
      URL_toString = (\<lambda>u. fst u @ (if snd u = [] then []
                                    else ''?'' @ join ''&'' (map (\<lambda>p. fst p @ ''='' @ snd p) (snd u)))),
      WebSocket_new = (\<lambda>s. if startsWith s ''ws://'' then True else startsWith s ''wss://'')\<rparr>"

text \<open>
  An instance of the three built-ins for the examples: decimal digits for a number,
  the ASCII letters folded, the ASCII white space trimmed. It returns what the runtime
  returns on an ASCII string and on a number below \<open>10^21\<close> in magnitude.
\<close>

definition ascii_lower :: "char \<Rightarrow> char" where
  "ascii_lower c =
     (case map_of (zip ''ABCDEFGHIJKLMNOPQRSTUVWXYZ'' ''abcdefghijklmnopqrstuvwxyz'') c of
        None \<Rightarrow> c
      | Some l \<Rightarrow> l)"

definition ascii_space :: "char \<Rightarrow> bool" where
  "ascii_space c = (c \<in> set [CHR 0x09, CHR 0x0A, CHR 0x0B, CHR 0x0C, CHR 0x0D, CHR '' ''])"

fun decimal_nat :: "nat \<Rightarrow> string" where
  "decimal_nat n =
     (if n < 10 then [''0123456789'' ! n]
      else decimal_nat (n div 10) @ [''0123456789'' ! (n mod 10)])"

definition decimal :: "int \<Rightarrow> string" where
  "decimal i = (if i < 0 then CHR ''-'' # decimal_nat (nat (- i)) else decimal_nat (nat i))"

definition plain_builtins :: builtins where
  "plain_builtins =
     \<lparr>Number_toString = decimal,
      String_toLowerCase = map ascii_lower,
      String_trim = (\<lambda>s. rev (dropWhile ascii_space (rev (dropWhile ascii_space s))))\<rparr>"

section \<open>Values for the examples\<close>

text \<open>
  The inbound group message of the specification's example (raw text \<^verbatim>\<open>hello\<close>, no
  segments), and a service whose socket is open.
\<close>

definition hello_event :: OB11Message where
  "hello_event =
     \<lparr>message_type = ''group'', message = NoMessage, raw_message = ''hello'',
      self_id = 10001, message_id = 77, group_id = Some 123456, user_id = 555,
      sender = Some [(''role'', JStr ''admin''), (''card'', JStr ''Bob'')]\<rparr>"

definition open_service :: service where
  "open_service =
     \<lparr>sockets = [(''ws://localhost:8765/ws/napcat'', OPEN)], timers = [], ws = Some 0,
      reconnectTimer = None, isConnecting = False, reconnectAttempts = 0, logged = [],
      frames = []\<rparr>"

text \<open>A configuration: a trailing slash, a token, at most three reconnect attempts.\<close>

definition example_config :: PluginConfig where
  "example_config =
     \<lparr>gscoreUrl = ''ws://localhost:8765/'', gscoreToken = ''abc'', gscoreEnable = True,
      reconnectInterval = None, maxReconnectAttempts = Some 3\<rparr>"

text \<open>A service that waits for its second reconnect attempt, its first socket closed.\<close>

definition retrying_service :: service where
  "retrying_service =
     \<lparr>sockets = [(''ws://localhost:8765/ws/napcat'', CLOSED),
                 (''ws://localhost:8765/ws/napcat'', CONNECTING)],
      timers = [(5000, Fired), (5000, Pending)], ws = Some 1, reconnectTimer = Some 1,
      isConnecting = True, reconnectAttempts = 1, logged = [], frames = []\<rparr>"

text \<open>
  What happens when a setting of the connection is changed while the socket is open
  (\<^verbatim>\<open>plugin_on_config_change\<close> calls \<^verbatim>\<open>disconnect()\<close> and then \<^verbatim>\<open>connect()\<close>): the new socket
  opens, the old socket emits its \<^verbatim>\<open>close\<close>, the timer that the \<^verbatim>\<open>close\<close> handler set
  fires, and the socket it opened opens too.
\<close>

definition reconfigure_trace :: "event list" where
  "reconfigure_trace =
     [CallConnect, SocketOpen 0, CallDisconnect, CallConnect, SocketOpen 1,
      SocketClose 0 1000 [], TimerFires 0, SocketOpen 2]"

text \<open>
  The same reconfiguration up to the \<^verbatim>\<open>close\<close> of the old socket: the new socket is open,
  and the \<^verbatim>\<open>close\<close> handler has just cleared its handle.
\<close>

definition stale_close_trace :: "event list" where
  "stale_close_trace =
     [CallConnect, SocketOpen 0, CallDisconnect, CallConnect, SocketOpen 1,
      SocketClose 0 1000 []]"

text \<open>
  A run with a limit of three attempts in which no socket ever opens: the first socket
  and the sockets of the first two reconnect attempts close.
\<close>

definition three_closes_trace :: "event list" where
  "three_closes_trace =
     [CallConnect, SocketClose 0 1006 [], TimerFires 0, SocketClose 1 1006 [], TimerFires 1,
      SocketClose 2 1006 []]"

text \<open>
  A run with a limit of three attempts in which a timer is left pending when the limit
  is reached: after a reconfiguration both the old and the new socket close, each
  \<^verbatim>\<open>close\<close> sets a timer, and the second handle overwrites the first.
\<close>

definition orphan_timer_trace :: "event list" where
  "orphan_timer_trace =
     [CallConnect, SocketOpen 0, CallDisconnect, CallConnect, SocketClose 0 1000 [],
      SocketClose 1 1006 [], TimerFires 0, SocketClose 2 1006 [], TimerFires 2,
      SocketClose 3 1006 [], TimerFires 3, SocketClose 4 1006 []]"

section \<open>Facts about the string functions\<close>

lemma indexOf_absent: "c \<notin> set s \<Longrightarrow> indexOf s [c] = - 1"
  by (induction s) (auto simp: startsWith_def)

lemma indexOf_first: "c \<notin> set a \<Longrightarrow> indexOf (a @ c # b) [c] = int (length a)"
  by (induction a) (auto simp: startsWith_def Let_def)

lemma replace_prefix: "startsWith s p \<Longrightarrow> replace s p r = r @ drop (length p) s"
  by (cases s) (auto simp: startsWith_def)

lemma nat_int_Suc: "nat (int n + 1) = Suc n"
  by simp

lemma with_String_Inr: "js_String B v = Inr s \<Longrightarrow> with_String B v f = Inr (f s)"
  by (simp add: with_String_def)

lemma with_String_Inl: "js_String B v = Inl e \<Longrightarrow> with_String B v f = Inl e"
  by (simp add: with_String_def)

section \<open>The decoder: items of kind file\<close>

lemma convert_file_split:
  assumes "js_String B d = Inr (name @ CHR ''|'' # rest)" and "CHR ''|'' \<notin> set name"
  shows "convert_file B d =
           Inr (if name = [] then []
                else if startsWith rest ''link://''
                then [TextSeg (file_label @ name @ ''] '' @ drop 7 rest)]
                else [TextSeg (file_label @ name @ '']'')])"
proof -
  let ?s = "name @ CHR ''|'' # rest"
  have idx: "indexOf ?s ''|'' = int (length name)"
    using assms(2) by (rule indexOf_first)
  have nm: "substring ?s 0 (int (length name)) = name"
    by (simp add: substring_def clamp_index_def)
  have rs: "substring_from ?s (int (length name) + 1) = rest"
    by (simp add: substring_from_def clamp_index_def nat_int_Suc)
  have seven: "length ''link://'' = 7"
    by simp
  show ?thesis
    unfolding convert_file_def with_String_Inr [OF assms(1)]
    by (simp add: idx nm rs replace_prefix seven del: list.size)
qed

lemma convert_file_no_separator:
  "js_String B d = Inr s \<Longrightarrow> CHR ''|'' \<notin> set s \<Longrightarrow> convert_file B d = Inr []"
  by (simp add: convert_file_def with_String_Inr indexOf_absent)

lemma convert_file_throws: "js_String B d = Inl e \<Longrightarrow> convert_file B d = Inl e"
  by (simp add: convert_file_def with_String_Inl)

lemma convert_one_leaf:
  assumes "get_prop msg ''type'' = Inr ty" and "get_prop msg ''data'' = Inr d"
    and "truthy ty" and "d \<noteq> JNull" and "d \<noteq> JUndefined" and "ty \<noteq> JStr ''node''"
  shows "convertGsCoreToOB11 B [msg] = convert_leaf B ty d"
  using assms by (simp split: sum.splits)

text \<open>
  Claim C6, as the code has it. An item of kind \<^verbatim>\<open>file\<close> is decoded from the string of
  its payload: split at the first \<^verbatim>\<open>|\<close> into a name and a remainder, it gives one text
  segment, the label and the name followed by the remainder without its \<^verbatim>\<open>link://\<close>
  prefix when it has that prefix, the label and the name alone otherwise; it gives
  nothing when the name is empty, and nothing when the string has no \<^verbatim>\<open>|\<close>. A payload
  that has no string (\<^verbatim>\<open>String\<close> throws on it) makes the decoder throw. An item without
  payload (\<^verbatim>\<open>null\<close> or missing) gives nothing.
\<close>

theorem file_item_decoding:
  assumes "get_prop msg ''type'' = Inr (JStr ''file'')" and "get_prop msg ''data'' = Inr d"
  shows "(d = JNull \<or> d = JUndefined \<longrightarrow> convertGsCoreToOB11 B [msg] = Inr [])
         \<and> (d \<noteq> JNull \<and> d \<noteq> JUndefined \<longrightarrow>
              (\<forall>e. js_String B d = Inl e \<longrightarrow> convertGsCoreToOB11 B [msg] = Inl e)
              \<and> (\<forall>name rest.
                   js_String B d = Inr (name @ ''|'' @ rest) \<and> CHR ''|'' \<notin> set name \<longrightarrow>
                   convertGsCoreToOB11 B [msg] =
                     Inr (if name = [] then []
                          else if startsWith rest ''link://''
                          then [TextSeg (file_label @ name @ ''] '' @ drop 7 rest)]
                          else [TextSeg (file_label @ name @ '']'')]))
              \<and> (\<forall>s. js_String B d = Inr s \<and> CHR ''|'' \<notin> set s \<longrightarrow>
                   convertGsCoreToOB11 B [msg] = Inr []))"
proof (intro conjI allI impI)
  assume "d = JNull \<or> d = JUndefined"
  then show "convertGsCoreToOB11 B [msg] = Inr []"
    using assms by auto
next
  fix e
  assume d: "d \<noteq> JNull \<and> d \<noteq> JUndefined"
  assume "js_String B d = Inl e"
  then have "convert_file B d = Inl e"
    by (rule convert_file_throws)
  moreover have "convertGsCoreToOB11 B [msg] = convert_file B d"
    using assms d by (simp add: convert_one_leaf convert_leaf_def del: convertGsCoreToOB11.simps)
  ultimately show "convertGsCoreToOB11 B [msg] = Inl e"
    by (simp only:)
next
  fix name rest
  assume d: "d \<noteq> JNull \<and> d \<noteq> JUndefined"
  assume "js_String B d = Inr (name @ ''|'' @ rest) \<and> CHR ''|'' \<notin> set name"
  then have "js_String B d = Inr (name @ CHR ''|'' # rest)" and "CHR ''|'' \<notin> set name"
    by simp_all
  then have "convert_file B d =
              Inr (if name = [] then []
                   else if startsWith rest ''link://''
                   then [TextSeg (file_label @ name @ ''] '' @ drop 7 rest)]
                   else [TextSeg (file_label @ name @ '']'')])"
    by (rule convert_file_split)
  moreover have "convertGsCoreToOB11 B [msg] = convert_file B d"
    using assms d by (simp add: convert_one_leaf convert_leaf_def del: convertGsCoreToOB11.simps)
  ultimately show "convertGsCoreToOB11 B [msg] =
              Inr (if name = [] then []
                   else if startsWith rest ''link://''
                   then [TextSeg (file_label @ name @ ''] '' @ drop 7 rest)]
                   else [TextSeg (file_label @ name @ '']'')])"
    by (simp only:)
next
  fix s
  assume d: "d \<noteq> JNull \<and> d \<noteq> JUndefined"
  assume "js_String B d = Inr s \<and> CHR ''|'' \<notin> set s"
  then have "convert_file B d = Inr []"
    by (simp add: convert_file_no_separator)
  moreover have "convertGsCoreToOB11 B [msg] = convert_file B d"
    using assms d by (simp add: convert_one_leaf convert_leaf_def del: convertGsCoreToOB11.simps)
  ultimately show "convertGsCoreToOB11 B [msg] = Inr []"
    by (simp only:)
qed

text \<open>
  The example of the specification, \<^verbatim>\<open>report.pdf|link://http://x/r.pdf\<close>; a payload
  that carries the file's content instead of a link; and a payload that is an object
  with a \<^verbatim>\<open>toString\<close> property, on which \<^verbatim>\<open>String\<close> throws.
\<close>

theorem file_item_decoding_witness:
  "convertGsCoreToOB11 plain_builtins
     [item ''file'' (JStr ''report.pdf|link://http://x/r.pdf'')] =
     Inr [TextSeg (file_label @ ''report.pdf] http://x/r.pdf'')]
   \<and> convertGsCoreToOB11 plain_builtins [item ''file'' (JStr ''report.pdf|AAAA'')] =
     Inr [TextSeg (file_label @ ''report.pdf]'')]
   \<and> convertGsCoreToOB11 plain_builtins [item ''file'' (JObj [(''toString'', JNum 1)])] =
     Inl TypeError"
proof -
  have a: "convertGsCoreToOB11 plain_builtins
      [item ''file'' (JStr ''report.pdf|link://http://x/r.pdf'')] =
     Inr [TextSeg (file_label @ ''report.pdf] http://x/r.pdf'')]"
    using file_item_decoding [of "item ''file'' (JStr ''report.pdf|link://http://x/r.pdf'')"
        "JStr ''report.pdf|link://http://x/r.pdf''" plain_builtins, THEN conjunct2, rule_format,
        THEN conjunct2, THEN conjunct1, rule_format,
        of "''report.pdf''" "''link://http://x/r.pdf''"]
    by (simp add: item_def obj_field_def startsWith_def)
  have b: "convertGsCoreToOB11 plain_builtins [item ''file'' (JStr ''report.pdf|AAAA'')] =
     Inr [TextSeg (file_label @ ''report.pdf]'')]"
    using file_item_decoding [of "item ''file'' (JStr ''report.pdf|AAAA'')"
        "JStr ''report.pdf|AAAA''" plain_builtins, THEN conjunct2, rule_format,
        THEN conjunct2, THEN conjunct1, rule_format, of "''report.pdf''" "''AAAA''"]
    by (simp add: item_def obj_field_def startsWith_def)
  have c: "convertGsCoreToOB11 plain_builtins
      [item ''file'' (JObj [(''toString'', JNum 1)])] = Inl TypeError"
    using file_item_decoding [of "item ''file'' (JObj [(''toString'', JNum 1)])"
        "JObj [(''toString'', JNum 1)]" plain_builtins, THEN conjunct2, rule_format,
        THEN conjunct1, rule_format, of TypeError]
    by (simp add: item_def obj_field_def)
  from a b c show ?thesis by simp
qed

text \<open>
  The test is \<^verbatim>\<open>sepIdx > 0\<close>: a payload that starts with the separator has a separator
  and a remainder with the \<^verbatim>\<open>link://\<close> prefix, and is dropped all the same.
\<close>

theorem file_item_empty_name_counterexample:
  "convertGsCoreToOB11 plain_builtins [item ''file'' (JStr ''|link://http://x/r.pdf'')] = Inr []
   \<and> convertGsCoreToOB11 plain_builtins [item ''file'' (JStr ''|link://http://x/r.pdf'')]
       \<noteq> Inr [TextSeg (file_label @ ''] http://x/r.pdf'')]"
  by (simp add: item_def obj_field_def convert_leaf_def convert_file_def with_String_def
      startsWith_def)

section \<open>Encoding and decoding text\<close>

lemma convert_text_item:
  "convertGsCoreToOB11 B (item ''text'' (JStr t) # items) =
     (case convertGsCoreToOB11 B items of Inl e \<Rightarrow> Inl e | Inr others \<Rightarrow> Inr (TextSeg t # others))"
  by (simp add: item_def obj_field_def convert_leaf_def with_String_def split: sum.splits)

lemma convert_text_segment:
  assumes "seg_type seg = ''text''" and "attr (seg_data seg) ''text'' = JStr t"
  shows "convert_segment B seg = Inr [item ''text'' (JStr t)]"
  using assms by (cases "t = []") (simp_all add: convert_segment_def js_or_def)

text \<open>
  Claim C7. An event whose message is a sequence of \<^verbatim>\<open>text\<close> segments, the text
  attribute of each a string: encoding the event succeeds, and decoding the result
  gives the text segments with the same texts, in the same order.
\<close>

theorem text_round_trip:
  assumes "message event = MessageSegments segs"
    and "list_all2 (\<lambda>seg t. seg_type seg = ''text'' \<and> attr (seg_data seg) ''text'' = JStr t) segs ts"
  shows "(case convertOB11ToGsCoreContent B event of
            Inl e \<Rightarrow> Inl e
          | Inr items \<Rightarrow> convertGsCoreToOB11 B items) = Inr (map TextSeg ts)"
proof -
  have "\<exists>items. convert_segments B segs = Inr items
                \<and> convertGsCoreToOB11 B items = Inr (map TextSeg ts)"
    using assms(2)
  proof (induction segs ts rule: list_all2_induct)
    case Nil
    show ?case by simp
  next
    case (Cons seg segs t ts)
    then obtain items where items: "convert_segments B segs = Inr items"
        "convertGsCoreToOB11 B items = Inr (map TextSeg ts)"
      by blast
    from Cons have "convert_segment B seg = Inr [item ''text'' (JStr t)]"
      by (simp add: convert_text_segment)
    then have "convert_segments B (seg # segs) = Inr (item ''text'' (JStr t) # items)"
      by (simp add: items(1))
    moreover have "convertGsCoreToOB11 B (item ''text'' (JStr t) # items) =
        Inr (map TextSeg (t # ts))"
      by (simp add: convert_text_item items(2) del: convertGsCoreToOB11.simps)
    ultimately show ?case by blast
  qed
  then show ?thesis
    by (auto simp: convertOB11ToGsCoreContent_def assms(1))
qed

text \<open>Three text segments, one of them empty, one with a comma and a separator.\<close>

theorem text_round_trip_witness:
  "(case convertOB11ToGsCoreContent plain_builtins
        \<lparr>message_type = ''group'',
         message = MessageSegments
           [Segment ''text'' (Some [(''text'', JStr ''hello '')]),
            Segment ''text'' (Some [(''text'', JStr [])]),
            Segment ''text'' (Some [(''text'', JStr ''a|b, c'')])],
         raw_message = ''hello a|b, c'', self_id = 10001, message_id = 7,
         group_id = Some 42, user_id = 5, sender = None\<rparr> of
      Inl e \<Rightarrow> Inl e
    | Inr items \<Rightarrow> convertGsCoreToOB11 plain_builtins items)
   = Inr [TextSeg ''hello '', TextSeg [], TextSeg ''a|b, c'']"
  using text_round_trip
    [where segs = "[Segment ''text'' (Some [(''text'', JStr ''hello '')]),
          Segment ''text'' (Some [(''text'', JStr [])]),
          Segment ''text'' (Some [(''text'', JStr ''a|b, c'')])]"
      and ts = "[''hello '', [], ''a|b, c'']"
      and B = plain_builtins
      and event = "\<lparr>message_type = ''group'',
          message = MessageSegments
            [Segment ''text'' (Some [(''text'', JStr ''hello '')]),
             Segment ''text'' (Some [(''text'', JStr [])]),
             Segment ''text'' (Some [(''text'', JStr ''a|b, c'')])],
         raw_message = ''hello a|b, c'', self_id = 10001, message_id = 7,
         group_id = Some 42, user_id = 5, sender = None\<rparr>"]
  by (simp add: attr_def obj_field_def)

section \<open>Dispatch of received envelopes\<close>

lemma handle_non_log:
  assumes "content m = Some (firstMsg # others)" and "get_prop firstMsg ''type'' = Inr ty"
    and "non_log_kind ty"
  shows "handleGsCoreMessage B send_msg m =
           Inr (to_target B send_msg (target_type m) (target_id m) (firstMsg # others))"
  using assms by (cases ty) (simp_all add: handleGsCoreMessage_def non_log_kind_def)

lemma sends_deliver:
  assumes "convertGsCoreToOB11 B items = Inr segs" and "segs \<noteq> []"
  shows "sends (deliver B send_msg ttype tid items) =
           [if ttype = Some ''direct'' then private_call tid segs else group_call tid segs]"
  using assms by (simp add: deliver_def Let_def private_call_def group_call_def)

lemma handle_sends:
  assumes "content m = Some (firstMsg # others)" and "get_prop firstMsg ''type'' = Inr ty"
    and "non_log_kind ty" and "target_id m = Some tid" and "tid \<noteq> []"
    and "convertGsCoreToOB11 B (firstMsg # others) = Inr segs" and "segs \<noteq> []"
  shows "\<exists>es. handleGsCoreMessage B send_msg m = Inr es \<and>
              sends es = [if target_type m = Some ''direct'' then private_call tid segs
                          else group_call tid segs]"
proof -
  have "handleGsCoreMessage B send_msg m =
          Inr (deliver B send_msg (target_type m) tid (firstMsg # others))"
    using assms(1-5) by (simp add: handle_non_log to_target_def)
  moreover have "sends (deliver B send_msg (target_type m) tid (firstMsg # others)) =
      [if target_type m = Some ''direct'' then private_call tid segs else group_call tid segs]"
    using assms(6,7) by (rule sends_deliver)
  ultimately show ?thesis by blast
qed

lemma handle_no_target:
  assumes "content m = Some (firstMsg # others)" and "get_prop firstMsg ''type'' = Inr ty"
    and "non_log_kind ty" and "target_id m = None \<or> target_id m = Some []"
  shows "handleGsCoreMessage B send_msg m = Inr [Log Warn NoTargetLog]"
  using assms(4) by (auto simp: handle_non_log [OF assms(1-3)] to_target_def)

lemma handle_empty:
  assumes "content m = None \<or> content m = Some []"
  shows "handleGsCoreMessage B send_msg m = Inr [Log Debug EmptyMessageLog]"
  using assms by (auto simp: handleGsCoreMessage_def)

text \<open>
  Claim C4, as the code has it. When the kind of the first item is a string with the
  prefix \<^verbatim>\<open>log_\<close>, no \<^verbatim>\<open>send_msg\<close> call is issued. The payload of the first item (the
  empty string in place of a payload that is falsy) is turned into a string. When it
  has one, the envelope has exactly one effect, a log line that carries this string;
  its level is chosen by the rest of the kind after the prefix, put in lower case by
  \<^verbatim>\<open>toLowerCase()\<close>: \<^verbatim>\<open>info\<close> logs at info, \<^verbatim>\<open>warning\<close> at warn, \<^verbatim>\<open>error\<close> at error,
  \<^verbatim>\<open>success\<close> at info with the success mark, anything else at debug. When \<^verbatim>\<open>String\<close>
  throws on the payload, the handler has no effect at all: its promise rejects.
\<close>

theorem log_envelope_logged_not_sent:
  assumes "content m = Some (firstMsg # others)"
    and "get_prop firstMsg ''type'' = Inr (JStr t)" and "startsWith t ''log_''"
    and "get_prop firstMsg ''data'' = Inr d"
  shows "(\<forall>line. js_String B (if truthy d then d else JStr []) = Inr line \<longrightarrow>
            (\<exists>e. handleGsCoreMessage B send_msg m = Inr [e] \<and> sends [e] = [] \<and>
                 e = (let suffix = String_toLowerCase B (drop 4 t)
                      in if suffix = ''info'' then Log Info (GsLogLine line)
                         else if suffix = ''warning'' then Log Warn (GsLogLine line)
                         else if suffix = ''error'' then Log Error (GsLogLine line)
                         else if suffix = ''success'' then Log Info (GsLogSuccess line)
                         else Log Debug (GsLogLevel suffix line))))
         \<and> (\<forall>err. js_String B (if truthy d then d else JStr []) = Inl err \<longrightarrow>
                handleGsCoreMessage B send_msg m = Inl err)"
proof (intro conjI allI impI)
  have t: "t \<noteq> []"
    using assms(3) by (auto simp: startsWith_def)
  have four: "length ''log_'' = 4"
    by simp
  have suffix: "replace t ''log_'' [] = drop 4 t"
    using assms(3) by (simp add: replace_prefix four del: list.size)
  have handle: "handleGsCoreMessage B send_msg m =
      (case log_passthrough B t d of Inl err \<Rightarrow> Inl err | Inr line \<Rightarrow> Inr [line])"
    using assms t by (simp add: handleGsCoreMessage_def)
  {
    fix line
    assume line: "js_String B (if truthy d then d else JStr []) = Inr line"
    let ?e = "let suffix = String_toLowerCase B (drop 4 t)
              in if suffix = ''info'' then Log Info (GsLogLine line)
                 else if suffix = ''warning'' then Log Warn (GsLogLine line)
                 else if suffix = ''error'' then Log Error (GsLogLine line)
                 else if suffix = ''success'' then Log Info (GsLogSuccess line)
                 else Log Debug (GsLogLevel suffix line)"
    have "log_passthrough B t d = Inr ?e"
      using line by (simp add: log_passthrough_def suffix js_or_def with_String_def Let_def)
    then have "handleGsCoreMessage B send_msg m = Inr [?e]"
      by (simp add: handle)
    moreover have "sends [?e] = []"
      by (simp add: Let_def)
    ultimately show "\<exists>e. handleGsCoreMessage B send_msg m = Inr [e] \<and> sends [e] = [] \<and> e = ?e"
      by blast
  }
  {
    fix err
    assume "js_String B (if truthy d then d else JStr []) = Inl err"
    then have "log_passthrough B t d = Inl err"
      by (simp add: log_passthrough_def js_or_def with_String_def Let_def)
    then show "handleGsCoreMessage B send_msg m = Inl err"
      by (simp add: handle)
  }
qed

text \<open>
  The example of the specification, a first item of kind \<^verbatim>\<open>log_error\<close>; and a log item
  whose payload is an object with a \<^verbatim>\<open>toString\<close> property.
\<close>

theorem log_envelope_logged_not_sent_witness:
  "handleGsCoreMessage plain_builtins (\<lambda>p. True)
     \<lparr>bot_id = ''napcat'', bot_self_id = ''10001'', msg_id = ''m1'',
      target_type = Some ''group'', target_id = Some ''42'',
      content = Some [item ''log_error'' (JStr ''boom''), item ''text'' (JStr ''hi'')]\<rparr>
   = Inr [Log Error (GsLogLine ''boom'')]
   \<and> handleGsCoreMessage plain_builtins (\<lambda>p. True)
     \<lparr>bot_id = ''napcat'', bot_self_id = ''10001'', msg_id = ''m2'',
      target_type = Some ''group'', target_id = Some ''42'',
      content = Some [item ''log_info'' (JObj [(''toString'', JNum 1)])]\<rparr>
   = Inl TypeError"
proof -
  have a: "handleGsCoreMessage plain_builtins (\<lambda>p. True)
     \<lparr>bot_id = ''napcat'', bot_self_id = ''10001'', msg_id = ''m1'',
      target_type = Some ''group'', target_id = Some ''42'',
      content = Some [item ''log_error'' (JStr ''boom''), item ''text'' (JStr ''hi'')]\<rparr>
   = Inr [Log Error (GsLogLine ''boom'')]"
    using log_envelope_logged_not_sent
      [where m = "\<lparr>bot_id = ''napcat'', bot_self_id = ''10001'', msg_id = ''m1'',
                   target_type = Some ''group'', target_id = Some ''42'',
                   content = Some [item ''log_error'' (JStr ''boom''),
                                   item ''text'' (JStr ''hi'')]\<rparr>"
         and firstMsg = "item ''log_error'' (JStr ''boom'')"
         and others = "[item ''text'' (JStr ''hi'')]"
         and t = "''log_error''" and d = "JStr ''boom''" and send_msg = "\<lambda>p. True"
         and B = plain_builtins, THEN conjunct1, rule_format, of "''boom''"]
    by (simp add: item_def obj_field_def startsWith_def plain_builtins_def ascii_lower_def)
  have b: "handleGsCoreMessage plain_builtins (\<lambda>p. True)
     \<lparr>bot_id = ''napcat'', bot_self_id = ''10001'', msg_id = ''m2'',
      target_type = Some ''group'', target_id = Some ''42'',
      content = Some [item ''log_info'' (JObj [(''toString'', JNum 1)])]\<rparr>
   = Inl TypeError"
    using log_envelope_logged_not_sent
      [where m = "\<lparr>bot_id = ''napcat'', bot_self_id = ''10001'', msg_id = ''m2'',
                   target_type = Some ''group'', target_id = Some ''42'',
                   content = Some [item ''log_info'' (JObj [(''toString'', JNum 1)])]\<rparr>"
         and firstMsg = "item ''log_info'' (JObj [(''toString'', JNum 1)])"
         and others = "[]"
         and t = "''log_info''" and d = "JObj [(''toString'', JNum 1)]"
         and send_msg = "\<lambda>p. True"
         and B = plain_builtins, THEN conjunct2, rule_format, of TypeError]
    by (simp add: item_def obj_field_def startsWith_def)
  from a b show ?thesis by simp
qed

text \<open>
  The rest of the kind is compared after \<^verbatim>\<open>toLowerCase()\<close>: \<^verbatim>\<open>log_INFO\<close>, whose suffix is
  none of the four names, is logged at info and not at debug.
\<close>

theorem log_level_upper_case_counterexample:
  "handleGsCoreMessage plain_builtins (\<lambda>p. True)
     \<lparr>bot_id = ''napcat'', bot_self_id = ''10001'', msg_id = ''m1'',
      target_type = Some ''group'', target_id = Some ''42'',
      content = Some [item ''log_INFO'' (JStr ''up'')]\<rparr>
   = Inr [Log Info (GsLogLine ''up'')]
   \<and> ''INFO'' \<noteq> ''info''"
  by (simp add: handleGsCoreMessage_def item_def obj_field_def startsWith_def
      log_passthrough_def with_String_def plain_builtins_def ascii_lower_def js_or_def)


text \<open>
  Claim C5, as the code has it. An envelope with no content, or an empty one, is logged
  and dropped. For an envelope whose first item is not of a log kind: without a target
  id (\<^verbatim>\<open>null\<close> or empty) it is logged and dropped; with a target id, and when its content
  decodes to at least one segment, exactly one \<^verbatim>\<open>send_msg\<close> call is issued, a private
  message to the target id when the target type is \<^verbatim>\<open>direct\<close>, a group message to the
  target id for every other target type that is not \<^verbatim>\<open>null\<close>.
\<close>

theorem dispatch_by_target_type:
  "(content m = None \<or> content m = Some [] \<longrightarrow>
      handleGsCoreMessage B send_msg m = Inr [Log Debug EmptyMessageLog])
   \<and> (\<forall>firstMsg others ty.
         content m = Some (firstMsg # others) \<and> get_prop firstMsg ''type'' = Inr ty
           \<and> non_log_kind ty \<longrightarrow>
         (target_id m = None \<or> target_id m = Some [] \<longrightarrow>
            handleGsCoreMessage B send_msg m = Inr [Log Warn NoTargetLog])
         \<and> (\<forall>tid segs.
               target_id m = Some tid \<and> tid \<noteq> []
                 \<and> convertGsCoreToOB11 B (firstMsg # others) = Inr segs \<and> segs \<noteq> [] \<longrightarrow>
               (target_type m = Some ''direct'' \<longrightarrow>
                  (\<exists>es. handleGsCoreMessage B send_msg m = Inr es
                        \<and> sends es = [private_call tid segs]))
               \<and> (\<forall>other. target_type m = Some other \<and> other \<noteq> ''direct'' \<longrightarrow>
                     (\<exists>es. handleGsCoreMessage B send_msg m = Inr es
                           \<and> sends es = [group_call tid segs]))))"
proof (intro conjI allI impI)
  assume "content m = None \<or> content m = Some []"
  then show "handleGsCoreMessage B send_msg m = Inr [Log Debug EmptyMessageLog]"
    by (rule handle_empty)
next
  fix firstMsg others ty
  assume first: "content m = Some (firstMsg # others) \<and> get_prop firstMsg ''type'' = Inr ty
           \<and> non_log_kind ty"
  assume "target_id m = None \<or> target_id m = Some []"
  with first show "handleGsCoreMessage B send_msg m = Inr [Log Warn NoTargetLog]"
    by (simp add: handle_no_target)
next
  fix firstMsg others ty tid segs
  assume first: "content m = Some (firstMsg # others) \<and> get_prop firstMsg ''type'' = Inr ty
           \<and> non_log_kind ty"
  assume target: "target_id m = Some tid \<and> tid \<noteq> []
                 \<and> convertGsCoreToOB11 B (firstMsg # others) = Inr segs \<and> segs \<noteq> []"
  assume "target_type m = Some ''direct''"
  with first target
    handle_sends [of m firstMsg others ty tid B segs send_msg]
  show "\<exists>es. handleGsCoreMessage B send_msg m = Inr es \<and> sends es = [private_call tid segs]"
    by simp
next
  fix firstMsg others ty tid segs other
  assume first: "content m = Some (firstMsg # others) \<and> get_prop firstMsg ''type'' = Inr ty
           \<and> non_log_kind ty"
  assume target: "target_id m = Some tid \<and> tid \<noteq> []
                 \<and> convertGsCoreToOB11 B (firstMsg # others) = Inr segs \<and> segs \<noteq> []"
  assume "target_type m = Some other \<and> other \<noteq> ''direct''"
  with first target
    handle_sends [of m firstMsg others ty tid B segs send_msg]
  show "\<exists>es. handleGsCoreMessage B send_msg m = Inr es \<and> sends es = [group_call tid segs]"
    by simp
qed

text \<open>A direct envelope, a channel envelope, one without target id, one without content.\<close>

theorem dispatch_by_target_type_witness:
  "(\<exists>es. handleGsCoreMessage plain_builtins (\<lambda>p. True)
            \<lparr>bot_id = ''napcat'', bot_self_id = ''10001'', msg_id = ''m1'',
             target_type = Some ''direct'', target_id = Some ''42'',
             content = Some [item ''text'' (JStr ''hi'')]\<rparr> = Inr es
         \<and> sends es = [private_call ''42'' [TextSeg ''hi'']])
   \<and> (\<exists>es. handleGsCoreMessage plain_builtins (\<lambda>p. True)
            \<lparr>bot_id = ''napcat'', bot_self_id = ''10001'', msg_id = ''m2'',
             target_type = Some ''channel'', target_id = Some ''77'',
             content = Some [item ''text'' (JStr ''hi'')]\<rparr> = Inr es
         \<and> sends es = [group_call ''77'' [TextSeg ''hi'']])
   \<and> handleGsCoreMessage plain_builtins (\<lambda>p. True)
            \<lparr>bot_id = ''napcat'', bot_self_id = ''10001'', msg_id = ''m3'',
             target_type = Some ''group'', target_id = None,
             content = Some [item ''text'' (JStr ''hi'')]\<rparr> = Inr [Log Warn NoTargetLog]
   \<and> handleGsCoreMessage plain_builtins (\<lambda>p. True)
            \<lparr>bot_id = ''napcat'', bot_self_id = ''10001'', msg_id = ''m4'',
             target_type = Some ''group'', target_id = Some ''42'',
             content = Some []\<rparr> = Inr [Log Debug EmptyMessageLog]"
proof -
  let ?first = "item ''text'' (JStr ''hi'')"
  have kind: "get_prop ?first ''type'' = Inr (JStr ''text'')" "non_log_kind (JStr ''text'')"
    by (simp_all add: item_def obj_field_def non_log_kind_def startsWith_def)
  have segs: "convertGsCoreToOB11 plain_builtins [?first] = Inr [TextSeg ''hi'']"
    by (simp add: item_def obj_field_def convert_leaf_def with_String_def)
  let ?m1 = "\<lparr>bot_id = ''napcat'', bot_self_id = ''10001'', msg_id = ''m1'',
             target_type = Some ''direct'', target_id = Some ''42'',
             content = Some [?first]\<rparr>"
  let ?m2 = "\<lparr>bot_id = ''napcat'', bot_self_id = ''10001'', msg_id = ''m2'',
             target_type = Some ''channel'', target_id = Some ''77'',
             content = Some [?first]\<rparr>"
  let ?m3 = "\<lparr>bot_id = ''napcat'', bot_self_id = ''10001'', msg_id = ''m3'',
             target_type = Some ''group'', target_id = None,
             content = Some [?first]\<rparr>"
  let ?m4 = "\<lparr>bot_id = ''napcat'', bot_self_id = ''10001'', msg_id = ''m4'',
             target_type = Some ''group'', target_id = Some ''42'',
             content = Some []\<rparr>"
  have a: "\<exists>es. handleGsCoreMessage plain_builtins (\<lambda>p. True)
            \<lparr>bot_id = ''napcat'', bot_self_id = ''10001'', msg_id = ''m1'',
             target_type = Some ''direct'', target_id = Some ''42'',
             content = Some [?first]\<rparr> = Inr es
         \<and> sends es = [private_call ''42'' [TextSeg ''hi'']]"
    using dispatch_by_target_type [where m = ?m1 and send_msg = "\<lambda>p. True" and B = plain_builtins,
        THEN conjunct2, rule_format, THEN conjunct2, rule_format, THEN conjunct1,
        of ?first "[]" "JStr ''text''" "''42''" "[TextSeg ''hi'']"] kind segs
    by (simp del: convertGsCoreToOB11.simps)
  have b: "\<exists>es. handleGsCoreMessage plain_builtins (\<lambda>p. True)
            \<lparr>bot_id = ''napcat'', bot_self_id = ''10001'', msg_id = ''m2'',
             target_type = Some ''channel'', target_id = Some ''77'',
             content = Some [?first]\<rparr> = Inr es
         \<and> sends es = [group_call ''77'' [TextSeg ''hi'']]"
    using dispatch_by_target_type [where m = ?m2 and send_msg = "\<lambda>p. True" and B = plain_builtins,
        THEN conjunct2, rule_format, THEN conjunct2, rule_format, THEN conjunct2,
        rule_format, of ?first "[]" "JStr ''text''" "''77''" "[TextSeg ''hi'']" "''channel''"]
      kind segs
    by (simp del: convertGsCoreToOB11.simps)
  have c: "handleGsCoreMessage plain_builtins (\<lambda>p. True)
            \<lparr>bot_id = ''napcat'', bot_self_id = ''10001'', msg_id = ''m3'',
             target_type = Some ''group'', target_id = None,
             content = Some [?first]\<rparr> = Inr [Log Warn NoTargetLog]"
    using dispatch_by_target_type [where m = ?m3 and send_msg = "\<lambda>p. True" and B = plain_builtins,
        THEN conjunct2, rule_format, THEN conjunct1, of ?first "[]" "JStr ''text''"] kind
    by simp
  have e: "handleGsCoreMessage plain_builtins (\<lambda>p. True)
            \<lparr>bot_id = ''napcat'', bot_self_id = ''10001'', msg_id = ''m4'',
             target_type = Some ''group'', target_id = Some ''42'',
             content = Some []\<rparr> = Inr [Log Debug EmptyMessageLog]"
    using dispatch_by_target_type [where m = ?m4 and send_msg = "\<lambda>p. True" and B = plain_builtins, THEN conjunct1]
    by simp
  from a b c e show ?thesis by blast
qed

text \<open>
  A direct envelope with a target id whose only item is of kind \<^verbatim>\<open>buttons\<close>: the content
  is not empty and not a log, it decodes to no segment, and nothing is sent.
\<close>

theorem direct_envelope_without_segments_counterexample:
  "handleGsCoreMessage plain_builtins (\<lambda>p. True)
     \<lparr>bot_id = ''napcat'', bot_self_id = ''10001'', msg_id = ''m1'',
      target_type = Some ''direct'', target_id = Some ''42'',
      content = Some [item ''buttons'' (JStr ''[ok]'')]\<rparr>
   = Inr [Log Debug EmptyConvertedLog]
   \<and> sends [Log Debug EmptyConvertedLog] = []"
  by (simp add: handleGsCoreMessage_def item_def obj_field_def startsWith_def to_target_def
      deliver_def convert_leaf_def with_String_def)

text \<open>
  Claim C10, as the code has it. When the content is not empty, its first item is not of
  a log kind, it decodes to at least one segment, and the target id is neither \<^verbatim>\<open>null\<close> nor
  empty, exactly one \<^verbatim>\<open>send_msg\<close> call is issued (whether or not the platform accepts
  it): a private message to the target id when the target type is exactly \<^verbatim>\<open>direct\<close>, a
  group message to the target id otherwise, also when the target type is \<^verbatim>\<open>null\<close> or
  a value the protocol does not know.
\<close>

theorem send_issued_for_any_target_type:
  assumes "content m = Some (firstMsg # others)" and "get_prop firstMsg ''type'' = Inr ty"
    and "non_log_kind ty"
    and "convertGsCoreToOB11 B (firstMsg # others) = Inr segs" and "segs \<noteq> []"
    and "target_id m = Some tid" and "tid \<noteq> []"
  shows "\<exists>es. handleGsCoreMessage B send_msg m = Inr es \<and>
              sends es = [if target_type m = Some ''direct'' then private_call tid segs
                          else group_call tid segs]"
  by (rule handle_sends [OF assms(1-3) assms(6,7) assms(4,5)])

text \<open>A target type of \<^verbatim>\<open>null\<close>, and one that differs from \<^verbatim>\<open>direct\<close> by its case only.\<close>

theorem send_issued_for_any_target_type_witness:
  "(\<exists>es. handleGsCoreMessage plain_builtins (\<lambda>p. False)
            \<lparr>bot_id = ''napcat'', bot_self_id = ''10001'', msg_id = ''m1'',
             target_type = None, target_id = Some ''42'',
             content = Some [item ''text'' (JStr ''hi'')]\<rparr> = Inr es
         \<and> sends es = [group_call ''42'' [TextSeg ''hi'']])
   \<and> (\<exists>es. handleGsCoreMessage plain_builtins (\<lambda>p. False)
            \<lparr>bot_id = ''napcat'', bot_self_id = ''10001'', msg_id = ''m2'',
             target_type = Some ''Direct'', target_id = Some ''42'',
             content = Some [item ''text'' (JStr ''hi'')]\<rparr> = Inr es
         \<and> sends es = [group_call ''42'' [TextSeg ''hi'']])"
proof -
  let ?first = "item ''text'' (JStr ''hi'')"
  have kind: "get_prop ?first ''type'' = Inr (JStr ''text'')" "non_log_kind (JStr ''text'')"
    by (simp_all add: item_def obj_field_def non_log_kind_def startsWith_def)
  have segs: "convertGsCoreToOB11 plain_builtins [?first] = Inr [TextSeg ''hi'']"
    by (simp add: item_def obj_field_def convert_leaf_def with_String_def)
  have a: "\<exists>es. handleGsCoreMessage plain_builtins (\<lambda>p. False)
            \<lparr>bot_id = ''napcat'', bot_self_id = ''10001'', msg_id = ''m1'',
             target_type = None, target_id = Some ''42'',
             content = Some [?first]\<rparr> = Inr es
         \<and> sends es = [group_call ''42'' [TextSeg ''hi'']]"
    using send_issued_for_any_target_type
      [where m = "\<lparr>bot_id = ''napcat'', bot_self_id = ''10001'', msg_id = ''m1'',
             target_type = None, target_id = Some ''42'', content = Some [?first]\<rparr>"
         and firstMsg = ?first and others = "[]" and ty = "JStr ''text''"
         and segs = "[TextSeg ''hi'']" and tid = "''42''" and send_msg = "\<lambda>p. False" and B = plain_builtins]
      kind segs
    by (simp del: convertGsCoreToOB11.simps)
  have b: "\<exists>es. handleGsCoreMessage plain_builtins (\<lambda>p. False)
            \<lparr>bot_id = ''napcat'', bot_self_id = ''10001'', msg_id = ''m2'',
             target_type = Some ''Direct'', target_id = Some ''42'',
             content = Some [?first]\<rparr> = Inr es
         \<and> sends es = [group_call ''42'' [TextSeg ''hi'']]"
    using send_issued_for_any_target_type
      [where m = "\<lparr>bot_id = ''napcat'', bot_self_id = ''10001'', msg_id = ''m2'',
             target_type = Some ''Direct'', target_id = Some ''42'', content = Some [?first]\<rparr>"
         and firstMsg = ?first and others = "[]" and ty = "JStr ''text''"
         and segs = "[TextSeg ''hi'']" and tid = "''42''" and send_msg = "\<lambda>p. False" and B = plain_builtins]
      kind segs
    by (simp del: convertGsCoreToOB11.simps)
  from a b show ?thesis by blast
qed

text \<open>
  The guard is \<^verbatim>\<open>!target_id\<close>: a target id that is the empty string is not \<^verbatim>\<open>null\<close>, and
  the envelope is dropped although its content decodes to a segment.
\<close>

theorem empty_target_id_counterexample:
  "handleGsCoreMessage plain_builtins (\<lambda>p. True)
     \<lparr>bot_id = ''napcat'', bot_self_id = ''10001'', msg_id = ''m1'',
      target_type = Some ''group'', target_id = Some [],
      content = Some [item ''text'' (JStr ''hi'')]\<rparr>
   = Inr [Log Warn NoTargetLog]
   \<and> convertGsCoreToOB11 plain_builtins [item ''text'' (JStr ''hi'')] = Inr [TextSeg ''hi'']
   \<and> sends [Log Warn NoTargetLog] = []"
  by (simp add: handleGsCoreMessage_def item_def obj_field_def startsWith_def to_target_def
      convert_leaf_def with_String_def)

section \<open>Forwarding an event without segments\<close>

lemma enrich_without_segments:
  "message event = NoMessage \<or> (\<exists>t. message event = MessageString t) \<Longrightarrow>
   enrich B get_msg event = ([], [])"
  by (auto simp: enrich_def reply_segment_def)

lemma connected_has_socket: "getStatus s = Connected \<Longrightarrow> \<exists>i. ws s = Some i"
  by (auto simp: getStatus_def readyState_def split: if_splits option.splits)

lemma id_String: "\<exists>s. js_String B (js_or (js_or (JStr a) (JNum n)) (JStr [])) = Inr s"
  by (simp add: js_or_def)

lemma msg_id_String: "\<exists>s. js_String B (js_or (JNum n) (JStr [])) = Inr s"
  by (simp add: js_or_def)

lemma messageReceive_built:
  assumes "sender_object B event = Inr so"
  shows "\<exists>frame. messageReceive B selfId event items = Inr frame \<and> mr_content frame = items
           \<and> mr_user_type frame = (if message_type event = ''group'' then ''group'' else ''direct'')"
proof -
  obtain a where a: "js_String B (js_or (js_or (JStr selfId) (JNum (self_id event))) (JStr [])) = Inr a"
    using id_String by blast
  obtain b where b: "js_String B (js_or (JNum (message_id event)) (JStr [])) = Inr b"
    using msg_id_String by blast
  show ?thesis
    by (simp add: messageReceive_def a b assms)
qed

lemma messageReceive_throws:
  assumes "sender_object B event = Inl e"
  shows "messageReceive B selfId event items = Inl e"
proof -
  obtain a where a: "js_String B (js_or (js_or (JStr selfId) (JNum (self_id event))) (JStr [])) = Inr a"
    using id_String by blast
  obtain b where b: "js_String B (js_or (JNum (message_id event)) (JStr [])) = Inr b"
    using msg_id_String by blast
  show ?thesis
    by (simp add: messageReceive_def a b assms)
qed

text \<open>
  Claim C8, as the code has it. For an event whose message is not an array of segments
  (it is missing, or a plain string): when the raw text is not empty the encoder gives
  exactly one text item, carrying the raw text, and when the raw text is empty it gives
  no item. When the service is connected and such an event with a raw text is a group
  message, \<^verbatim>\<open>forwardMessage\<close> sends one frame with that content and the user type
  \<^verbatim>\<open>group\<close>, provided the sender's fields give the envelope's sender; when building the
  sender throws (\<^verbatim>\<open>String(sender.user_id)\<close>), no frame is sent. For an event whose message
  is an empty array of segments the encoder gives no item, whatever the raw text.
\<close>

theorem raw_text_fallback:
  "(message event = NoMessage \<or> (\<exists>t. message event = MessageString t) \<longrightarrow>
      (raw_message event \<noteq> [] \<longrightarrow>
         convertOB11ToGsCoreContent B event = Inr [item ''text'' (JStr (raw_message event))]
         \<and> (getStatus s = Connected \<and> message_type event = ''group''
              \<and> (\<exists>so. sender_object B event = Inr so) \<longrightarrow>
              (\<exists>i frame. ws s = Some i
                 \<and> frames (forwardMessage B selfId get_msg event s) = frames s @ [(i, frame)]
                 \<and> mr_content frame = [item ''text'' (JStr (raw_message event))]
                 \<and> mr_user_type frame = ''group''))
         \<and> (getStatus s = Connected \<and> message_type event = ''group''
              \<and> (\<exists>e. sender_object B event = Inl e) \<longrightarrow>
              frames (forwardMessage B selfId get_msg event s) = frames s))
      \<and> (raw_message event = [] \<longrightarrow> convertOB11ToGsCoreContent B event = Inr []))
   \<and> (message event = MessageSegments [] \<longrightarrow> convertOB11ToGsCoreContent B event = Inr [])"
proof (intro conjI impI)
  assume "message event = MessageSegments []"
  then show "convertOB11ToGsCoreContent B event = Inr []"
    by (simp add: convertOB11ToGsCoreContent_def)
next
  assume "message event = NoMessage \<or> (\<exists>t. message event = MessageString t)"
    and "raw_message event = []"
  then show "convertOB11ToGsCoreContent B event = Inr []"
    by (auto simp: convertOB11ToGsCoreContent_def)
next
  assume no: "message event = NoMessage \<or> (\<exists>t. message event = MessageString t)"
    and raw: "raw_message event \<noteq> []"
  then show "convertOB11ToGsCoreContent B event = Inr [item ''text'' (JStr (raw_message event))]"
    by (auto simp: convertOB11ToGsCoreContent_def)
next
  assume no: "message event = NoMessage \<or> (\<exists>t. message event = MessageString t)"
    and raw: "raw_message event \<noteq> []"
    and conn: "getStatus s = Connected \<and> message_type event = ''group''
                 \<and> (\<exists>so. sender_object B event = Inr so)"
  have items: "convertOB11ToGsCoreContent B event = Inr [item ''text'' (JStr (raw_message event))]"
    using no raw by (auto simp: convertOB11ToGsCoreContent_def)
  have none: "enrich B get_msg event = ([], [])"
    using no by (rule enrich_without_segments)
  from conn obtain i where i: "ws s = Some i"
    using connected_has_socket by blast
  from conn obtain so where "sender_object B event = Inr so"
    by blast
  then obtain frame where frame:
      "messageReceive B selfId event [item ''text'' (JStr (raw_message event))] = Inr frame"
      "mr_content frame = [item ''text'' (JStr (raw_message event))]"
      "mr_user_type frame = (if message_type event = ''group'' then ''group'' else ''direct'')"
    using messageReceive_built by blast
  have "frames (forwardMessage B selfId get_msg event s) = frames s @ [(i, frame)]"
    using conn i by (simp add: forwardMessage_def none items frame(1) log_line_def Let_def)
  moreover have "mr_user_type frame = ''group''"
    using conn frame(3) by simp
  ultimately show "\<exists>i frame. ws s = Some i
          \<and> frames (forwardMessage B selfId get_msg event s) = frames s @ [(i, frame)]
          \<and> mr_content frame = [item ''text'' (JStr (raw_message event))]
          \<and> mr_user_type frame = ''group''"
    using i frame(2) by blast
next
  assume no: "message event = NoMessage \<or> (\<exists>t. message event = MessageString t)"
    and raw: "raw_message event \<noteq> []"
    and conn: "getStatus s = Connected \<and> message_type event = ''group''
                 \<and> (\<exists>e. sender_object B event = Inl e)"
  have items: "convertOB11ToGsCoreContent B event = Inr [item ''text'' (JStr (raw_message event))]"
    using no raw by (auto simp: convertOB11ToGsCoreContent_def)
  have none: "enrich B get_msg event = ([], [])"
    using no by (rule enrich_without_segments)
  from conn obtain e where "sender_object B event = Inl e"
    by blast
  then have "messageReceive B selfId event [item ''text'' (JStr (raw_message event))] = Inl e"
    by (rule messageReceive_throws)
  then show "frames (forwardMessage B selfId get_msg event s) = frames s"
    using conn by (simp add: forwardMessage_def none items log_line_def Let_def)
qed

text \<open>
  The example of the specification; the same event with an empty raw text; and the
  same event from a sender whose \<^verbatim>\<open>user_id\<close> has no string.
\<close>

theorem raw_text_fallback_witness:
  "convertOB11ToGsCoreContent plain_builtins hello_event = Inr [item ''text'' (JStr ''hello'')]
   \<and> (\<exists>frame. frames (forwardMessage plain_builtins [] (\<lambda>v. Inr None) hello_event open_service)
                 = [(0, frame)]
         \<and> mr_content frame = [item ''text'' (JStr ''hello'')]
         \<and> mr_user_type frame = ''group'')
   \<and> convertOB11ToGsCoreContent plain_builtins (hello_event\<lparr>raw_message := []\<rparr>) = Inr []
   \<and> frames (forwardMessage plain_builtins [] (\<lambda>v. Inr None)
               (hello_event\<lparr>sender := Some [(''user_id'', JObj [(''toString'', JNull)])]\<rparr>)
               open_service) = []"
proof -
  have a: "convertOB11ToGsCoreContent plain_builtins hello_event
             = Inr [item ''text'' (JStr ''hello'')]
   \<and> (\<exists>frame. frames (forwardMessage plain_builtins [] (\<lambda>v. Inr None) hello_event open_service)
                 = [(0, frame)]
         \<and> mr_content frame = [item ''text'' (JStr ''hello'')]
         \<and> mr_user_type frame = ''group'')"
    using raw_text_fallback [where event = hello_event and s = open_service and selfId = "[]"
        and get_msg = "\<lambda>v. Inr None" and B = plain_builtins]
    by (simp add: hello_event_def open_service_def getStatus_def readyState_def
        sender_object_def obj_field_def)
  have b: "convertOB11ToGsCoreContent plain_builtins (hello_event\<lparr>raw_message := []\<rparr>) = Inr []"
    using raw_text_fallback [where event = "hello_event\<lparr>raw_message := []\<rparr>"
        and s = open_service and selfId = "[]" and get_msg = "\<lambda>v. Inr None"
        and B = plain_builtins]
    by (simp add: hello_event_def)
  have c: "frames (forwardMessage plain_builtins [] (\<lambda>v. Inr None)
               (hello_event\<lparr>sender := Some [(''user_id'', JObj [(''toString'', JNull)])]\<rparr>)
               open_service) = []"
    using raw_text_fallback
      [where event = "hello_event\<lparr>sender := Some [(''user_id'', JObj [(''toString'', JNull)])]\<rparr>"
        and s = open_service and selfId = "[]" and get_msg = "\<lambda>v. Inr None"
        and B = plain_builtins]
    by (simp add: hello_event_def open_service_def getStatus_def readyState_def
        sender_object_def obj_field_def)
  from a b c show ?thesis by simp
qed

text \<open>
  The fallback is taken only when there is no array (\<^verbatim>\<open>!Array.isArray(message)\<close>) and
  only for a raw text that is truthy: the same event with an empty array of segments,
  and the same event with an empty raw text, both give no item at all.
\<close>

theorem raw_text_fallback_counterexample:
  "convertOB11ToGsCoreContent plain_builtins (hello_event\<lparr>message := MessageSegments []\<rparr>) = Inr []
   \<and> convertOB11ToGsCoreContent plain_builtins (hello_event\<lparr>raw_message := []\<rparr>) = Inr []"
  by (simp add: hello_event_def convertOB11ToGsCoreContent_def)

section \<open>The socket URL\<close>

lemma startsWith_iff: "startsWith s p \<longleftrightarrow> (\<exists>b. s = p @ b)"
proof
  assume "startsWith s p"
  then have "s = p @ drop (length p) s"
    by (metis append_take_drop_id startsWith_def)
  then show "\<exists>b. s = p @ b" ..
next
  assume "\<exists>b. s = p @ b"
  then show "startsWith s p"
    by (auto simp: startsWith_def)
qed

lemma endsWith_iff: "endsWith s p \<longleftrightarrow> (\<exists>b. s = b @ p)"
proof
  assume "endsWith s p"
  then have "s = take (length s - length p) s @ p"
    by (metis append_take_drop_id endsWith_def)
  then show "\<exists>b. s = b @ p" ..
next
  assume "\<exists>b. s = b @ p"
  then show "endsWith s p"
    by (auto simp: endsWith_def)
qed

lemma includes_str_iff: "includes_str s p \<longleftrightarrow> (\<exists>a b. s = a @ p @ b)"
proof (induction s)
  case Nil
  show ?case by auto
next
  case (Cons c s)
  show ?case
  proof
    assume "includes_str (c # s) p"
    then have "startsWith (c # s) p \<or> includes_str s p"
      by (simp split: if_splits)
    then show "\<exists>a b. c # s = a @ p @ b"
    proof
      assume "startsWith (c # s) p"
      then obtain b where "c # s = p @ b"
        using startsWith_iff by blast
      then have "c # s = [] @ p @ b" by simp
      then show ?thesis by blast
    next
      assume "includes_str s p"
      then obtain a b where "s = a @ p @ b"
        using Cons.IH by blast
      then have "c # s = (c # a) @ p @ b" by simp
      then show ?thesis by blast
    qed
  next
    assume "\<exists>a b. c # s = a @ p @ b"
    then obtain a b where ab: "c # s = a @ p @ b" by blast
    show "includes_str (c # s) p"
    proof (cases a)
      case Nil
      with ab have "startsWith (c # s) p"
        using startsWith_iff by auto
      then show ?thesis by simp
    next
      case (Cons x a')
      with ab have "s = a' @ p @ b" by simp
      then have "includes_str s p"
        using Cons.IH by blast
      then show ?thesis by simp
    qed
  qed
qed

lemma routed_url_steps:
  "routed_url cfg =
     (let base = (if gscoreUrl cfg = [] then ''ws://localhost:8765'' else gscoreUrl cfg);
          stripped = (if \<exists>b. base = b @ ''/'' then butlast base else base)
      in if \<exists>a b. stripped = a @ ''/ws/'' @ b then stripped else stripped @ ''/ws/napcat'')"
  by (simp add: routed_url_def Let_def endsWith_iff includes_str_iff)

lemma connect_opens:
  assumes "gscoreEnable cfg" and "readyState s \<noteq> Some OPEN" and "\<not> isConnecting s"
    and "socket_url R cfg = Inr u" and "WebSocket_new R u"
  shows "sockets (state_of (connect R cfg s)) = sockets s @ [(u, CONNECTING)]"
    and "ws (state_of (connect R cfg s)) = Some (length (sockets s))"
  using assms by (simp_all add: connect_def Let_def log_line_def)

text \<open>
  Claim C3, as the code has it. The URL that \<^verbatim>\<open>connect\<close> opens is derived from the
  configured base URL (the default when none is configured) in three steps: one
  trailing \<^verbatim>\<open>/\<close> is removed; the suffix \<^verbatim>\<open>/ws/napcat\<close> is appended if and only if the
  result does not contain the text \<^verbatim>\<open>/ws/\<close> anywhere; the result is parsed as a URL, and
  the token is appended as the query parameter \<^verbatim>\<open>token\<close> if and only if the token is not
  empty and the URL's query has no such parameter. The second part says that this URL
  is the one the socket is opened with.
\<close>

theorem socket_url_derivation:
  "socket_url R cfg =
     (let base = (if gscoreUrl cfg = [] then ''ws://localhost:8765'' else gscoreUrl cfg);
          stripped = (if \<exists>b. base = b @ ''/'' then butlast base else base);
          routed = (if \<exists>a b. stripped = a @ ''/ws/'' @ b then stripped
                    else stripped @ ''/ws/napcat'')
      in case URL_new R routed of
           None \<Rightarrow> Inl TypeError
         | Some url \<Rightarrow>
             Inr (URL_toString R
                    (if gscoreToken cfg \<noteq> [] \<and> \<not> searchParams_has R url ''token''
                     then searchParams_append R url ''token'' (gscoreToken cfg) else url)))
   \<and> (\<forall>u. gscoreEnable cfg \<and> readyState s \<noteq> Some OPEN \<and> \<not> isConnecting s
            \<and> socket_url R cfg = Inr u \<and> WebSocket_new R u \<longrightarrow>
          sockets (state_of (connect R cfg s)) = sockets s @ [(u, CONNECTING)]
          \<and> ws (state_of (connect R cfg s)) = Some (length (sockets s)))"
proof -
  have "socket_url R cfg =
     (case URL_new R (routed_url cfg) of
           None \<Rightarrow> Inl TypeError
         | Some url \<Rightarrow>
             Inr (URL_toString R
                    (if gscoreToken cfg \<noteq> [] \<and> \<not> searchParams_has R url ''token''
                     then searchParams_append R url ''token'' (gscoreToken cfg) else url)))"
    by (simp add: socket_url_def Let_def)
  then show ?thesis
    unfolding routed_url_steps Let_def
    by (auto simp: connect_opens)
qed

text \<open>
  With the plain runtime: a base URL with a trailing slash and a token; a base URL that
  already has a route and a token; the socket \<^verbatim>\<open>connect\<close> opens.
\<close>

theorem socket_url_derivation_witness:
  "socket_url plain_runtime example_config = Inr ''ws://localhost:8765/ws/napcat?token=abc''
   \<and> socket_url plain_runtime (example_config\<lparr>gscoreUrl := ''ws://core:8765/ws/bot?token=t0''\<rparr>)
       = Inr ''ws://core:8765/ws/bot?token=t0''
   \<and> sockets (state_of (connect plain_runtime example_config initial))
       = [(''ws://localhost:8765/ws/napcat?token=abc'', CONNECTING)]"
proof -
  have a: "socket_url plain_runtime example_config = Inr ''ws://localhost:8765/ws/napcat?token=abc''"
    by (simp add: socket_url_def routed_url_def endsWith_def example_config_def
        plain_runtime_def startsWith_def parse_query_def)
  have b: "socket_url plain_runtime (example_config\<lparr>gscoreUrl := ''ws://core:8765/ws/bot?token=t0''\<rparr>)
       = Inr ''ws://core:8765/ws/bot?token=t0''"
    by (simp add: socket_url_def routed_url_def endsWith_def example_config_def
        plain_runtime_def startsWith_def parse_query_def)
  have c: "sockets (state_of (connect plain_runtime example_config initial))
       = [(''ws://localhost:8765/ws/napcat?token=abc'', CONNECTING)]"
    using socket_url_derivation [where R = plain_runtime and cfg = example_config
        and s = initial, THEN conjunct2, rule_format,
        of "''ws://localhost:8765/ws/napcat?token=abc''"] a
    by (simp add: example_config_def plain_runtime_def startsWith_def initial_def readyState_def)
  from a b c show ?thesis by simp
qed

text \<open>
  The test is on the text of the URL, not on its path: a host named \<^verbatim>\<open>ws\<close>, or a
  query that mentions \<^verbatim>\<open>/ws/\<close>, keeps the suffix away from a URL whose path has no
  \<^verbatim>\<open>/ws/\<close> segment.
\<close>

theorem ws_outside_path_counterexample:
  "\<not> has_ws_segment ''ws://ws/core''
   \<and> routed_url (example_config\<lparr>gscoreUrl := ''ws://ws/core''\<rparr>) = ''ws://ws/core''
   \<and> socket_url plain_runtime (example_config\<lparr>gscoreUrl := ''ws://ws/core''\<rparr>)
       = Inr ''ws://ws/core?token=abc''
   \<and> \<not> has_ws_segment ''ws://h:1/gs?next=/ws/x''
   \<and> routed_url (example_config\<lparr>gscoreUrl := ''ws://h:1/gs?next=/ws/x''\<rparr>)
       = ''ws://h:1/gs?next=/ws/x''"
proof -
  have a: "\<not> has_ws_segment ''ws://ws/core''"
    by (simp add: has_ws_segment_def url_path_def startsWith_def substring_from_def
        clamp_index_def)
  have b: "routed_url (example_config\<lparr>gscoreUrl := ''ws://ws/core''\<rparr>) = ''ws://ws/core''"
    by (simp add: routed_url_def endsWith_def example_config_def startsWith_def)
  have c: "socket_url plain_runtime (example_config\<lparr>gscoreUrl := ''ws://ws/core''\<rparr>)
       = Inr ''ws://ws/core?token=abc''"
    by (simp add: socket_url_def routed_url_def endsWith_def example_config_def
        plain_runtime_def startsWith_def parse_query_def)
  have d: "\<not> has_ws_segment ''ws://h:1/gs?next=/ws/x''"
    by (simp add: has_ws_segment_def url_path_def startsWith_def substring_from_def
        clamp_index_def)
  have e: "routed_url (example_config\<lparr>gscoreUrl := ''ws://h:1/gs?next=/ws/x''\<rparr>)
       = ''ws://h:1/gs?next=/ws/x''"
    by (simp add: routed_url_def endsWith_def example_config_def startsWith_def)
  from a b c d e show ?thesis by simp
qed

section \<open>The connection\<close>

lemma pending_iff: "t \<in> set (pending_timers s) \<longleftrightarrow> t < length (timers s) \<and> snd (timers s ! t) = Pending"
  by (auto simp: pending_timers_def)

lemma live_iff:
  "i \<in> set (live_sockets s) \<longleftrightarrow>
     i < length (sockets s) \<and> (snd (sockets s ! i) = CONNECTING \<or> snd (sockets s ! i) = OPEN)"
  by (auto simp: live_sockets_def)

lemma clearTimeout_length: "length (clearTimeout ts t) = length ts"
  by (simp add: clearTimeout_def)

lemma clearTimeout_nth:
  "k < length ts \<Longrightarrow>
   snd (clearTimeout ts t ! k) = (if k = t \<and> snd (ts ! t) = Pending then Cleared else snd (ts ! k))"
  by (auto simp: clearTimeout_def nth_list_update)

lemma close_socket_length: "length (close_socket ss i) = length ss"
  by (simp add: close_socket_def)

lemma close_socket_urls: "map fst (close_socket ss i) = map fst ss"
  by (auto simp: close_socket_def map_update list_update_same_conv)

lemma close_socket_nth:
  "k < length ss \<Longrightarrow>
   snd (close_socket ss i ! k) = (if k = i \<and> snd (ss ! i) \<noteq> CLOSED then CLOSING else snd (ss ! k))"
  by (auto simp: close_socket_def nth_list_update)

lemma disconnect_fields:
  "ws (disconnect s) = None" "reconnectTimer (disconnect s) = None"
  "\<not> isConnecting (disconnect s)" "reconnectAttempts (disconnect s) = 0"
  "logged (disconnect s) = logged s" "frames (disconnect s) = frames s"
  by (simp_all add: disconnect_def Let_def split: option.splits)

lemma disconnect_sockets:
  "sockets (disconnect s) = (case ws s of None \<Rightarrow> sockets s | Some i \<Rightarrow> close_socket (sockets s) i)"
  by (simp add: disconnect_def Let_def split: option.splits)

lemma disconnect_timers:
  "timers (disconnect s) =
     (case reconnectTimer s of None \<Rightarrow> timers s | Some t \<Rightarrow> clearTimeout (timers s) t)"
  by (simp add: disconnect_def Let_def split: option.splits)

lemma disconnect_status: "getStatus (disconnect s) = Disconnected"
  by (simp add: getStatus_def readyState_def disconnect_fields)

text \<open>
  With the feature disabled, \<^verbatim>\<open>connect\<close> is \<^verbatim>\<open>disconnect\<close>: it returns, constructs no
  socket, clears both handles, closes the socket it held and cancels the timer it held,
  and resets the counter; no socket becomes live and no timer becomes pending.
\<close>

lemma connect_disabled_is_disconnect:
  assumes "\<not> gscoreEnable cfg"
  shows "\<exists>s'. connect R cfg s = Returns s'
           \<and> map fst (sockets s') = map fst (sockets s)
           \<and> ws s' = None \<and> reconnectTimer s' = None \<and> \<not> isConnecting s'
           \<and> reconnectAttempts s' = 0 \<and> getStatus s' = Disconnected
           \<and> (\<forall>i. ws s = Some i \<longrightarrow> i \<notin> set (live_sockets s'))
           \<and> (\<forall>t. reconnectTimer s = Some t \<longrightarrow> t \<notin> set (pending_timers s'))
           \<and> (\<forall>t. t \<in> set (pending_timers s') \<longrightarrow> t \<in> set (pending_timers s))
           \<and> (\<forall>i. i \<in> set (live_sockets s') \<longrightarrow> i \<in> set (live_sockets s))
           \<and> ((\<forall>t. t \<in> set (pending_timers s) \<longrightarrow> reconnectTimer s = Some t) \<longrightarrow>
                pending_timers s' = [])
           \<and> ((\<forall>i. i \<in> set (live_sockets s) \<longrightarrow> ws s = Some i) \<longrightarrow>
                live_sockets s' = [])"
proof -
  have "connect R cfg s = Returns (disconnect s)"
    using assms by (simp add: connect_def)
  moreover have "map fst (sockets (disconnect s)) = map fst (sockets s)"
    by (simp add: disconnect_sockets close_socket_urls split: option.splits)
  moreover have held_socket: "\<forall>i. ws s = Some i \<longrightarrow> i \<notin> set (live_sockets (disconnect s))"
    by (auto simp: live_iff disconnect_sockets close_socket_length close_socket_nth)
  moreover have held_timer: "\<forall>t. reconnectTimer s = Some t \<longrightarrow> t \<notin> set (pending_timers (disconnect s))"
    by (auto simp: pending_iff disconnect_timers clearTimeout_length clearTimeout_nth)
  moreover have later_pending: "\<forall>t. t \<in> set (pending_timers (disconnect s)) \<longrightarrow> t \<in> set (pending_timers s)"
    by (auto simp: pending_iff disconnect_timers clearTimeout_length clearTimeout_nth
        split: option.splits if_splits)
  moreover have later_live: "\<forall>i. i \<in> set (live_sockets (disconnect s)) \<longrightarrow> i \<in> set (live_sockets s)"
    by (auto simp: live_iff disconnect_sockets close_socket_length close_socket_nth
        split: option.splits if_splits)
  moreover have "(\<forall>t. t \<in> set (pending_timers s) \<longrightarrow> reconnectTimer s = Some t) \<longrightarrow>
                pending_timers (disconnect s) = []"
  proof
    assume only: "\<forall>t. t \<in> set (pending_timers s) \<longrightarrow> reconnectTimer s = Some t"
    have "t \<notin> set (pending_timers (disconnect s))" for t
    proof
      assume t: "t \<in> set (pending_timers (disconnect s))"
      then have "t \<in> set (pending_timers s)"
        using later_pending by blast
      with only have "reconnectTimer s = Some t" by blast
      with held_timer t show False by blast
    qed
    then show "pending_timers (disconnect s) = []"
      by (cases "pending_timers (disconnect s)") auto
  qed
  moreover have "(\<forall>i. i \<in> set (live_sockets s) \<longrightarrow> ws s = Some i) \<longrightarrow>
                live_sockets (disconnect s) = []"
  proof
    assume only: "\<forall>i. i \<in> set (live_sockets s) \<longrightarrow> ws s = Some i"
    have "i \<notin> set (live_sockets (disconnect s))" for i
    proof
      assume i: "i \<in> set (live_sockets (disconnect s))"
      then have "i \<in> set (live_sockets s)"
        using later_live by blast
      with only have "ws s = Some i" by blast
      with held_socket i show False by blast
    qed
    then show "live_sockets (disconnect s) = []"
      by (cases "live_sockets (disconnect s)") auto
  qed
  ultimately show ?thesis
    by (simp add: disconnect_fields disconnect_status)
qed


text \<open>
  Claim C9 says that the call closes an existing socket and cancels any pending
  reconnect timer. \<^verbatim>\<open>disconnect\<close> knows one socket and one timer, the ones of the two
  handles. After a reconfiguration the \<^verbatim>\<open>close\<close> of the old socket clears the handle of
  the new, open socket: a call of \<^verbatim>\<open>connect\<close> with the feature disabled then leaves
  that socket open, and the service reports \<open>Disconnected\<close>. When the new socket closes
  as well, its \<^verbatim>\<open>close\<close> handler sets a second timer over the handle of the first, and
  the call cancels the second only: the first stays pending.
\<close>

theorem disabled_connect_leaves_socket_open:
  "possible_run plain_runtime example_config stale_close_trace initial
   \<and> map snd (sockets (state_of (connect plain_runtime (example_config\<lparr>gscoreEnable := False\<rparr>)
        (run plain_runtime example_config stale_close_trace initial)))) = [CLOSED, OPEN]
   \<and> live_sockets (state_of (connect plain_runtime (example_config\<lparr>gscoreEnable := False\<rparr>)
        (run plain_runtime example_config stale_close_trace initial))) = [1]
   \<and> getStatus (state_of (connect plain_runtime (example_config\<lparr>gscoreEnable := False\<rparr>)
        (run plain_runtime example_config stale_close_trace initial))) = Disconnected
   \<and> possible_run plain_runtime example_config (stale_close_trace @ [SocketClose 1 1006 []])
        initial
   \<and> pending_timers (state_of (connect plain_runtime (example_config\<lparr>gscoreEnable := False\<rparr>)
        (run plain_runtime example_config (stale_close_trace @ [SocketClose 1 1006 []])
           initial))) = [0]"
proof -
  let ?u = "''ws://localhost:8765/ws/napcat?token=abc''"
  let ?off = "example_config\<lparr>gscoreEnable := False\<rparr>"
  have url: "socket_url plain_runtime example_config = Inr ?u"
    by (simp add: socket_url_def routed_url_def endsWith_def example_config_def
        plain_runtime_def startsWith_def parse_query_def)
  have sock: "WebSocket_new plain_runtime ?u"
    by (simp add: plain_runtime_def startsWith_def)
  have en: "gscoreEnable example_config" "maxReconnectAttempts example_config = Some 3"
    "reconnectInterval example_config = None"
    by (simp_all add: example_config_def)
  have off: "\<not> gscoreEnable ?off"
    by simp
  have s6: "run plain_runtime example_config stale_close_trace initial =
      \<lparr>sockets = [(?u, CLOSED), (?u, OPEN)], timers = [(5000, Pending)],
       ws = None, reconnectTimer = Some 0, isConnecting = False, reconnectAttempts = 0,
       logged = [(Info, ConnectingLog), (Info, ConnectedLog), (Info, ConnectingLog),
                 (Info, ConnectedLog), (Warn, ClosedLog 1000 []),
                 (Info, ReconnectInLog 5000 1 (Some 3))],
       frames = []\<rparr>"
    by (simp add: stale_close_trace_def initial_def connect_def url sock en readyState_def
        log_line_def on_open_def set_ready_def disconnect_def close_socket_def on_close_def
        scheduleReconnect_def exhausted_def max_attempts_def interval_ms_def
        clearTimeout_def Let_def)
  have p6: "possible_run plain_runtime example_config stale_close_trace initial"
    by (simp add: stale_close_trace_def initial_def connect_def url sock en readyState_def
        log_line_def on_open_def set_ready_def disconnect_def close_socket_def on_close_def
        scheduleReconnect_def exhausted_def max_attempts_def interval_ms_def
        clearTimeout_def Let_def)
  have s7: "run plain_runtime example_config (stale_close_trace @ [SocketClose 1 1006 []]) initial =
      \<lparr>sockets = [(?u, CLOSED), (?u, CLOSED)], timers = [(5000, Pending), (5000, Pending)],
       ws = None, reconnectTimer = Some 1, isConnecting = False, reconnectAttempts = 0,
       logged = [(Info, ConnectingLog), (Info, ConnectedLog), (Info, ConnectingLog),
                 (Info, ConnectedLog), (Warn, ClosedLog 1000 []),
                 (Info, ReconnectInLog 5000 1 (Some 3)), (Warn, ClosedLog 1006 []),
                 (Info, ReconnectInLog 5000 1 (Some 3))],
       frames = []\<rparr>"
    by (simp add: stale_close_trace_def initial_def connect_def url sock en readyState_def
        log_line_def on_open_def set_ready_def disconnect_def close_socket_def on_close_def
        scheduleReconnect_def exhausted_def max_attempts_def interval_ms_def
        clearTimeout_def Let_def)
  have p7: "possible_run plain_runtime example_config
              (stale_close_trace @ [SocketClose 1 1006 []]) initial"
    by (simp add: stale_close_trace_def initial_def connect_def url sock en readyState_def
        log_line_def on_open_def set_ready_def disconnect_def close_socket_def on_close_def
        scheduleReconnect_def exhausted_def max_attempts_def interval_ms_def
        clearTimeout_def Let_def)
  have c6: "state_of (connect plain_runtime ?off
              (run plain_runtime example_config stale_close_trace initial)) =
      \<lparr>sockets = [(?u, CLOSED), (?u, OPEN)], timers = [(5000, Cleared)],
       ws = None, reconnectTimer = None, isConnecting = False, reconnectAttempts = 0,
       logged = [(Info, ConnectingLog), (Info, ConnectedLog), (Info, ConnectingLog),
                 (Info, ConnectedLog), (Warn, ClosedLog 1000 []),
                 (Info, ReconnectInLog 5000 1 (Some 3))],
       frames = []\<rparr>"
    unfolding s6 by (simp add: connect_def off disconnect_def clearTimeout_def)
  have c7: "state_of (connect plain_runtime ?off
              (run plain_runtime example_config (stale_close_trace @ [SocketClose 1 1006 []])
                 initial)) =
      \<lparr>sockets = [(?u, CLOSED), (?u, CLOSED)], timers = [(5000, Pending), (5000, Cleared)],
       ws = None, reconnectTimer = None, isConnecting = False, reconnectAttempts = 0,
       logged = [(Info, ConnectingLog), (Info, ConnectedLog), (Info, ConnectingLog),
                 (Info, ConnectedLog), (Warn, ClosedLog 1000 []),
                 (Info, ReconnectInLog 5000 1 (Some 3)), (Warn, ClosedLog 1006 []),
                 (Info, ReconnectInLog 5000 1 (Some 3))],
       frames = []\<rparr>"
    unfolding s7 by (simp add: connect_def off disconnect_def clearTimeout_def)
  show ?thesis
    unfolding c6 c7
    using p6 p7
    by (simp add: live_sockets_def pending_timers_def getStatus_def readyState_def upt_rec)
qed

section \<open>Reconnection\<close>

lemma schedule_disabled: "\<not> gscoreEnable cfg \<Longrightarrow> scheduleReconnect cfg s = s"
  by (simp add: scheduleReconnect_def)

lemma schedule_exhausted:
  "gscoreEnable cfg \<Longrightarrow> exhausted cfg s \<Longrightarrow>
   scheduleReconnect cfg s = s\<lparr>logged := logged s @ [(Error, ReconnectLimitLog (max_attempts cfg))]\<rparr>"
  by (simp add: scheduleReconnect_def log_line_def)

lemma schedule_exhausted_again:
  assumes "gscoreEnable cfg" and "exhausted cfg s"
  shows "timers ((scheduleReconnect cfg ^^ n) s) = timers s
         \<and> reconnectTimer ((scheduleReconnect cfg ^^ n) s) = reconnectTimer s
         \<and> exhausted cfg ((scheduleReconnect cfg ^^ n) s)"
proof (induction n)
  case 0
  show ?case using assms(2) by simp
next
  case (Suc n)
  let ?s = "(scheduleReconnect cfg ^^ n) s"
  have "scheduleReconnect cfg ?s =
          ?s\<lparr>logged := logged ?s @ [(Error, ReconnectLimitLog (max_attempts cfg))]\<rparr>"
    using assms(1) Suc.IH by (simp add: schedule_exhausted)
  with Suc.IH show ?case
    by (simp add: exhausted_def)
qed

lemma schedule_timer:
  assumes "gscoreEnable cfg" and "\<not> exhausted cfg s"
  shows "scheduleReconnect cfg s =
           s\<lparr>logged := logged s @
                  [(Info, ReconnectInLog (interval_ms cfg) (reconnectAttempts s + 1)
                            (if 0 < max_attempts cfg then Some (max_attempts cfg) else None))],
             timers := timers s @ [(interval_ms cfg, Pending)],
             reconnectTimer := Some (length (timers s))\<rparr>"
  using assms
  by (simp add: scheduleReconnect_def log_line_def Let_def)

lemma timer_fires_pending:
  assumes "t < length (timers s)" and "snd (timers s ! t) = Pending"
  shows "timer_fires R cfg t s =
           connect R cfg (s\<lparr>timers := (timers s)[t := (fst (timers s ! t), Fired)],
                            reconnectAttempts := reconnectAttempts s + 1\<rparr>)"
  using assms by (simp add: timer_fires_def)

lemma timer_fires_spent:
  "t < length (timers s) \<Longrightarrow> snd (timers s ! t) \<noteq> Pending \<Longrightarrow> timer_fires R cfg t s = Returns s"
  by (simp add: timer_fires_def)

lemma schedule_keeps_spent:
  assumes "t < length (timers s)" and "snd (timers s ! t) \<noteq> Pending"
  shows "t < length (timers (scheduleReconnect cfg s))
         \<and> snd (timers (scheduleReconnect cfg s) ! t) \<noteq> Pending"
  using assms by (simp add: scheduleReconnect_def log_line_def Let_def nth_append)

lemma connect_keeps_spent:
  assumes "t < length (timers s)" and "snd (timers s ! t) \<noteq> Pending"
  shows "t < length (timers (state_of (connect R cfg s)))
         \<and> snd (timers (state_of (connect R cfg s)) ! t) \<noteq> Pending"
proof (cases "gscoreEnable cfg")
  case False
  then have "connect R cfg s = Returns (disconnect s)"
    by (simp add: connect_def)
  with assms show ?thesis
    by (simp add: disconnect_timers clearTimeout_length clearTimeout_nth split: option.splits)
next
  case True
  show ?thesis
  proof (cases "readyState s = Some OPEN \<or> isConnecting s")
    case True
    with \<open>gscoreEnable cfg\<close> have "connect R cfg s = Returns s"
      by (auto simp: connect_def)
    with assms show ?thesis by simp
  next
    case False
    show ?thesis
    proof (cases "socket_url R cfg")
      case (Inl e)
      with False \<open>gscoreEnable cfg\<close> assms show ?thesis
        by (simp add: connect_def)
    next
      case (Inr u)
      show ?thesis
      proof (cases "WebSocket_new R u")
        case True
        with Inr False \<open>gscoreEnable cfg\<close> assms show ?thesis
          by (simp add: connect_def log_line_def)
      next
        case no: False
        let ?s = "(log_line Error CreateFailedLog (log_line Info ConnectingLog (s\<lparr>isConnecting := True\<rparr>)))
                    \<lparr>isConnecting := False\<rparr>"
        have "connect R cfg s = Returns (scheduleReconnect cfg ?s)"
          using Inr False no \<open>gscoreEnable cfg\<close> by (simp add: connect_def Let_def)
        moreover have "t < length (timers ?s)" "snd (timers ?s ! t) \<noteq> Pending"
          using assms by (simp_all add: log_line_def)
        ultimately show ?thesis
          using schedule_keeps_spent [of t ?s cfg] by simp
      qed
    qed
  qed
qed

lemma fire_scheduled:
  assumes "gscoreEnable cfg" and "\<not> exhausted cfg s"
  shows "timer_fires R cfg (length (timers s)) (scheduleReconnect cfg s) =
           connect R cfg ((scheduleReconnect cfg s)
                            \<lparr>timers := timers s @ [(interval_ms cfg, Fired)],
                             reconnectAttempts := reconnectAttempts s + 1\<rparr>)"
  by (simp add: schedule_timer [OF assms] timer_fires_def)

lemma fire_once:
  assumes "gscoreEnable cfg" and "\<not> exhausted cfg s"
  shows "timer_fires R cfg (length (timers s))
           (state_of (timer_fires R cfg (length (timers s)) (scheduleReconnect cfg s)))
         = Returns (state_of (timer_fires R cfg (length (timers s)) (scheduleReconnect cfg s)))"
proof -
  let ?fired = "(scheduleReconnect cfg s)
                  \<lparr>timers := timers s @ [(interval_ms cfg, Fired)],
                   reconnectAttempts := reconnectAttempts s + 1\<rparr>"
  have "length (timers s) < length (timers ?fired)"
    and "snd (timers ?fired ! length (timers s)) \<noteq> Pending"
    by simp_all
  then have "length (timers s) < length (timers (state_of (connect R cfg ?fired)))
         \<and> snd (timers (state_of (connect R cfg ?fired)) ! length (timers s)) \<noteq> Pending"
    by (rule connect_keeps_spent)
  then show ?thesis
    unfolding fire_scheduled [OF assms] by (simp add: timer_fires_spent)
qed


lemma on_close_unfold:
  "on_close cfg i code reason s =
     scheduleReconnect cfg
       (log_line Warn (ClosedLog code reason) ((set_ready i CLOSED s)\<lparr>isConnecting := False, ws := None\<rparr>))"
  by (simp add: on_close_def)

lemma closed_fields:
  "timers (log_line Warn (ClosedLog code reason) ((set_ready i CLOSED s)\<lparr>isConnecting := False, ws := None\<rparr>)) = timers s"
  "reconnectAttempts (log_line Warn (ClosedLog code reason) ((set_ready i CLOSED s)\<lparr>isConnecting := False, ws := None\<rparr>)) = reconnectAttempts s"
  "ws (log_line Warn (ClosedLog code reason) ((set_ready i CLOSED s)\<lparr>isConnecting := False, ws := None\<rparr>)) = None"
  "\<not> isConnecting (log_line Warn (ClosedLog code reason) ((set_ready i CLOSED s)\<lparr>isConnecting := False, ws := None\<rparr>))"
  by (simp_all add: log_line_def set_ready_def)

lemma on_close_exhausted:
  assumes "gscoreEnable cfg" and "exhausted cfg s"
  shows "timers (on_close cfg i code reason s) = timers s"
    and "reconnectAttempts (on_close cfg i code reason s) = reconnectAttempts s"
    and "last (logged (on_close cfg i code reason s)) = (Error, ReconnectLimitLog (max_attempts cfg))"
proof -
  let ?c = "log_line Warn (ClosedLog code reason) ((set_ready i CLOSED s)\<lparr>isConnecting := False, ws := None\<rparr>)"
  have ex: "exhausted cfg ?c"
    using assms(2) by (simp add: exhausted_def closed_fields)
  show "timers (on_close cfg i code reason s) = timers s"
    and "reconnectAttempts (on_close cfg i code reason s) = reconnectAttempts s"
    and "last (logged (on_close cfg i code reason s)) = (Error, ReconnectLimitLog (max_attempts cfg))"
    unfolding on_close_unfold schedule_exhausted [OF assms(1) ex]
    by (simp_all add: closed_fields)
qed

lemma on_close_schedules:
  assumes "gscoreEnable cfg" and "\<not> exhausted cfg s"
  shows "timers (on_close cfg i code reason s) = timers s @ [(interval_ms cfg, Pending)]"
    and "reconnectAttempts (on_close cfg i code reason s) = reconnectAttempts s"
proof -
  let ?c = "log_line Warn (ClosedLog code reason) ((set_ready i CLOSED s)\<lparr>isConnecting := False, ws := None\<rparr>)"
  have ex: "\<not> exhausted cfg ?c"
    using assms(2) by (simp add: exhausted_def closed_fields)
  show "timers (on_close cfg i code reason s) = timers s @ [(interval_ms cfg, Pending)]"
    and "reconnectAttempts (on_close cfg i code reason s) = reconnectAttempts s"
    unfolding on_close_unfold schedule_timer [OF assms(1) ex]
    by (simp_all add: closed_fields)
qed

lemma connect_opens_keeps:
  assumes "gscoreEnable cfg" and "readyState s \<noteq> Some OPEN" and "\<not> isConnecting s"
    and "socket_url R cfg = Inr u" and "WebSocket_new R u"
  shows "timers (state_of (connect R cfg s)) = timers s"
    and "reconnectAttempts (state_of (connect R cfg s)) = reconnectAttempts s"
  using assms by (simp_all add: connect_def Let_def log_line_def)

lemma close_then_fire:
  assumes "gscoreEnable cfg" and "socket_url R cfg = Inr u" and "WebSocket_new R u"
    and "\<not> exhausted cfg s"
  shows "timers (state_of (timer_fires R cfg (length (timers s)) (on_close cfg i code reason s)))
           = timers s @ [(interval_ms cfg, Fired)]"
    and "reconnectAttempts (state_of (timer_fires R cfg (length (timers s)) (on_close cfg i code reason s)))
           = reconnectAttempts s + 1"
proof -
  let ?c = "log_line Warn (ClosedLog code reason) ((set_ready i CLOSED s)\<lparr>isConnecting := False, ws := None\<rparr>)"
  let ?f = "(scheduleReconnect cfg ?c)\<lparr>timers := timers ?c @ [(interval_ms cfg, Fired)],
                                        reconnectAttempts := reconnectAttempts ?c + 1\<rparr>"
  have ex: "\<not> exhausted cfg ?c"
    using assms(4) by (simp add: exhausted_def closed_fields)
  have fire: "timer_fires R cfg (length (timers s)) (on_close cfg i code reason s) = connect R cfg ?f"
    using fire_scheduled [OF assms(1) ex, of R] by (simp add: on_close_unfold closed_fields)
  have guard: "readyState ?f \<noteq> Some OPEN" "\<not> isConnecting ?f"
    by (simp_all add: schedule_timer [OF assms(1) ex] readyState_def closed_fields)
  have "timers (state_of (connect R cfg ?f)) = timers ?f"
    and "reconnectAttempts (state_of (connect R cfg ?f)) = reconnectAttempts ?f"
    using connect_opens_keeps [OF assms(1) guard assms(2,3)] by simp_all
  then show "timers (state_of (timer_fires R cfg (length (timers s)) (on_close cfg i code reason s)))
           = timers s @ [(interval_ms cfg, Fired)]"
    and "reconnectAttempts (state_of (timer_fires R cfg (length (timers s)) (on_close cfg i code reason s)))
           = reconnectAttempts s + 1"
    unfolding fire by (simp_all add: closed_fields)
qed

lemma closes_exhausted:
  assumes "gscoreEnable cfg" and "exhausted cfg s"
  shows "timers (run R cfg (map (\<lambda>(i, c, r). SocketClose i c r) cs) s) = timers s
         \<and> exhausted cfg (run R cfg (map (\<lambda>(i, c, r). SocketClose i c r) cs) s)"
  using assms(2)
proof (induction cs arbitrary: s)
  case Nil
  then show ?case by simp
next
  case (Cons x cs)
  obtain i c r where x: "x = (i, c, r)"
    by (cases x) auto
  have t: "timers (on_close cfg i c r s) = timers s"
    and a: "reconnectAttempts (on_close cfg i c r s) = reconnectAttempts s"
    using on_close_exhausted [OF assms(1) Cons.prems] by simp_all
  from a Cons.prems have "exhausted cfg (on_close cfg i c r s)"
    by (simp add: exhausted_def)
  from Cons.IH [OF this] t show ?case
    by (simp add: x)
qed

lemma three_attempts:
  fixes R :: "'u runtime" and cfg :: PluginConfig and s :: service
    and i1 i2 i3 i4 :: nat and c1 c2 c3 c4 :: int and r1 r2 r3 r4 :: string
  assumes en: "gscoreEnable cfg" and max: "maxReconnectAttempts cfg = Some 3"
    and url: "socket_url R cfg = Inr u" and sock: "WebSocket_new R u"
    and zero: "reconnectAttempts s = 0"
  defines "n \<equiv> length (timers s)"
  defines "s3 \<equiv> run R cfg [SocketClose i1 c1 r1, TimerFires n, SocketClose i2 c2 r2,
                            TimerFires (n + 1), SocketClose i3 c3 r3] s"
  defines "s4 \<equiv> run R cfg [TimerFires (n + 2), SocketClose i4 c4 r4] s3"
  shows "timers s3 = timers s @ [(interval_ms cfg, Fired), (interval_ms cfg, Fired),
                                 (interval_ms cfg, Pending)]"
    and "timers s4 = timers s @ [(interval_ms cfg, Fired), (interval_ms cfg, Fired),
                                 (interval_ms cfg, Fired)]"
    and "reconnectAttempts s4 = 3"
    and "last (logged s4) = (Error, ReconnectLimitLog 3)"
    and "exhausted cfg s4"
proof -
  have m: "max_attempts cfg = 3"
    using max by (simp add: max_attempts_def)
  define s1 where "s1 = state_of (timer_fires R cfg n (on_close cfg i1 c1 r1 s))"
  define s2 where "s2 = state_of (timer_fires R cfg (n + 1) (on_close cfg i2 c2 r2 s1))"
  define s3' where "s3' = state_of (timer_fires R cfg (n + 2) (on_close cfg i3 c3 r3 s2))"
  have e0: "\<not> exhausted cfg s"
    using zero m by (simp add: exhausted_def)
  have t1: "timers s1 = timers s @ [(interval_ms cfg, Fired)]" and a1: "reconnectAttempts s1 = 1"
    unfolding s1_def n_def using close_then_fire [OF en url sock e0] zero by simp_all
  have e1: "\<not> exhausted cfg s1"
    using a1 m by (simp add: exhausted_def)
  have n1: "n + 1 = length (timers s1)"
    using t1 by (simp add: n_def)
  have t2: "timers s2 = timers s1 @ [(interval_ms cfg, Fired)]" and a2: "reconnectAttempts s2 = 2"
    unfolding s2_def n1 using close_then_fire [OF en url sock e1] a1 by simp_all
  have e2: "\<not> exhausted cfg s2"
    using a2 m by (simp add: exhausted_def)
  have n2: "n + 2 = length (timers s2)"
    using t1 t2 by (simp add: n_def)
  have t3': "timers s3' = timers s2 @ [(interval_ms cfg, Fired)]" and a3: "reconnectAttempts s3' = 3"
    unfolding s3'_def n2 using close_then_fire [OF en url sock e2] a2 by simp_all
  have e3: "exhausted cfg s3'"
    using a3 m by (simp add: exhausted_def)
  have s3: "s3 = on_close cfg i3 c3 r3 s2"
    by (simp add: s3_def s2_def s1_def)
  have s4: "s4 = on_close cfg i4 c4 r4 s3'"
    by (simp add: s4_def s3'_def s3)
  show "timers s3 = timers s @ [(interval_ms cfg, Fired), (interval_ms cfg, Fired),
                                 (interval_ms cfg, Pending)]"
    unfolding s3 using on_close_schedules(1) [OF en e2] t1 t2 by simp
  show t4: "timers s4 = timers s @ [(interval_ms cfg, Fired), (interval_ms cfg, Fired),
                                 (interval_ms cfg, Fired)]"
    unfolding s4 using on_close_exhausted(1) [OF en e3] t1 t2 t3' by simp
  show a4: "reconnectAttempts s4 = 3"
    unfolding s4 using on_close_exhausted(2) [OF en e3] a3 by simp
  show "last (logged s4) = (Error, ReconnectLimitLog 3)"
    unfolding s4 using on_close_exhausted(3) [OF en e3] m by simp
  show "exhausted cfg s4"
    using a4 m by (simp add: exhausted_def)
qed


lemma scheduleReconnect_cases:
  fixes R :: "'u runtime" and cfg :: PluginConfig and s :: service
    and i1 i2 i3 i4 :: nat and c1 c2 c3 c4 :: int and r1 r2 r3 r4 :: string
  shows
  "(\<not> gscoreEnable cfg \<longrightarrow> scheduleReconnect cfg s = s)
   \<and> (gscoreEnable cfg \<and> exhausted cfg s \<longrightarrow>
        scheduleReconnect cfg s =
          s\<lparr>logged := logged s @ [(Error, ReconnectLimitLog (max_attempts cfg))]\<rparr>
        \<and> (\<forall>k. timers ((scheduleReconnect cfg ^^ k) s) = timers s))
   \<and> (gscoreEnable cfg \<and> \<not> exhausted cfg s \<longrightarrow>
        timers (scheduleReconnect cfg s) = timers s @ [(interval_ms cfg, Pending)]
        \<and> reconnectTimer (scheduleReconnect cfg s) = Some (length (timers s))
        \<and> reconnectAttempts (scheduleReconnect cfg s) = reconnectAttempts s
        \<and> timer_fires R cfg (length (timers s)) (scheduleReconnect cfg s) =
            connect R cfg ((scheduleReconnect cfg s)
                             \<lparr>timers := timers s @ [(interval_ms cfg, Fired)],
                              reconnectAttempts := reconnectAttempts s + 1\<rparr>)
        \<and> timer_fires R cfg (length (timers s))
              (state_of (timer_fires R cfg (length (timers s)) (scheduleReconnect cfg s)))
            = Returns (state_of (timer_fires R cfg (length (timers s)) (scheduleReconnect cfg s))))
   \<and> (gscoreEnable cfg \<and> maxReconnectAttempts cfg = Some 0 \<longrightarrow>
        timers (scheduleReconnect cfg s) = timers s @ [(interval_ms cfg, Pending)])
   \<and> (gscoreEnable cfg \<and> maxReconnectAttempts cfg = Some 3 \<and> socket_url R cfg = Inr u
        \<and> WebSocket_new R u \<and> reconnectAttempts s = 0 \<longrightarrow>
        (let n = length (timers s);
             s3 = run R cfg [SocketClose i1 c1 r1, TimerFires n, SocketClose i2 c2 r2,
                             TimerFires (n + 1), SocketClose i3 c3 r3] s;
             s4 = run R cfg [TimerFires (n + 2), SocketClose i4 c4 r4] s3
         in timers s3 = timers s @ [(interval_ms cfg, Fired), (interval_ms cfg, Fired),
                                    (interval_ms cfg, Pending)]
            \<and> timers s4 = timers s @ [(interval_ms cfg, Fired), (interval_ms cfg, Fired),
                                       (interval_ms cfg, Fired)]
            \<and> reconnectAttempts s4 = 3
            \<and> last (logged s4) = (Error, ReconnectLimitLog 3)
            \<and> (\<forall>cs. timers (run R cfg (map (\<lambda>(i, c, r). SocketClose i c r) cs) s4)
                       = timers s4)))"
proof (intro conjI impI)
  assume "\<not> gscoreEnable cfg"
  then show "scheduleReconnect cfg s = s"
    by (rule schedule_disabled)
next
  assume "gscoreEnable cfg \<and> exhausted cfg s"
  then show "scheduleReconnect cfg s =
          s\<lparr>logged := logged s @ [(Error, ReconnectLimitLog (max_attempts cfg))]\<rparr>"
    by (simp add: schedule_exhausted)
next
  assume "gscoreEnable cfg \<and> exhausted cfg s"
  then show "\<forall>k. timers ((scheduleReconnect cfg ^^ k) s) = timers s"
    using schedule_exhausted_again [of cfg s] by blast
next
  assume a: "gscoreEnable cfg \<and> \<not> exhausted cfg s"
  then show "timers (scheduleReconnect cfg s) = timers s @ [(interval_ms cfg, Pending)]"
    and "reconnectTimer (scheduleReconnect cfg s) = Some (length (timers s))"
    and "reconnectAttempts (scheduleReconnect cfg s) = reconnectAttempts s"
    by (simp_all add: schedule_timer)
  from a show "timer_fires R cfg (length (timers s)) (scheduleReconnect cfg s) =
            connect R cfg ((scheduleReconnect cfg s)
                             \<lparr>timers := timers s @ [(interval_ms cfg, Fired)],
                              reconnectAttempts := reconnectAttempts s + 1\<rparr>)"
    by (simp add: fire_scheduled)
  from a show "timer_fires R cfg (length (timers s))
              (state_of (timer_fires R cfg (length (timers s)) (scheduleReconnect cfg s)))
            = Returns (state_of (timer_fires R cfg (length (timers s)) (scheduleReconnect cfg s)))"
    by (simp add: fire_once)
next
  assume a: "gscoreEnable cfg \<and> maxReconnectAttempts cfg = Some 0"
  then have "\<not> exhausted cfg s"
    by (simp add: exhausted_def max_attempts_def)
  with a show "timers (scheduleReconnect cfg s) = timers s @ [(interval_ms cfg, Pending)]"
    by (simp add: schedule_timer)
next
  assume a: "gscoreEnable cfg \<and> maxReconnectAttempts cfg = Some 3 \<and> socket_url R cfg = Inr u
        \<and> WebSocket_new R u \<and> reconnectAttempts s = 0"
  then have en: "gscoreEnable cfg" and max: "maxReconnectAttempts cfg = Some 3"
    and url: "socket_url R cfg = Inr u" and sock: "WebSocket_new R u"
    and zero: "reconnectAttempts s = 0"
    by simp_all
  note three = three_attempts [OF en max url sock zero]
  show "let n = length (timers s);
             s3 = run R cfg [SocketClose i1 c1 r1, TimerFires n, SocketClose i2 c2 r2,
                             TimerFires (n + 1), SocketClose i3 c3 r3] s;
             s4 = run R cfg [TimerFires (n + 2), SocketClose i4 c4 r4] s3
         in timers s3 = timers s @ [(interval_ms cfg, Fired), (interval_ms cfg, Fired),
                                    (interval_ms cfg, Pending)]
            \<and> timers s4 = timers s @ [(interval_ms cfg, Fired), (interval_ms cfg, Fired),
                                       (interval_ms cfg, Fired)]
            \<and> reconnectAttempts s4 = 3
            \<and> last (logged s4) = (Error, ReconnectLimitLog 3)
            \<and> (\<forall>cs. timers (run R cfg (map (\<lambda>(i, c, r). SocketClose i c r) cs) s4)
                       = timers s4)"
    unfolding Let_def
  proof (intro conjI allI)
    fix cs
    show "timers (run R cfg (map (\<lambda>(i, c, r). SocketClose i c r) cs)
                    (run R cfg [TimerFires (length (timers s) + 2), SocketClose i4 c4 r4]
                       (run R cfg [SocketClose i1 c1 r1, TimerFires (length (timers s)),
                                   SocketClose i2 c2 r2, TimerFires (length (timers s) + 1),
                                   SocketClose i3 c3 r3] s)))
          = timers (run R cfg [TimerFires (length (timers s) + 2), SocketClose i4 c4 r4]
                       (run R cfg [SocketClose i1 c1 r1, TimerFires (length (timers s)),
                                   SocketClose i2 c2 r2, TimerFires (length (timers s) + 1),
                                   SocketClose i3 c3 r3] s))"
      using closes_exhausted [OF en three(5)] by blast
  qed (rule three)+
qed

text \<open>
  Claim C1, as the code has it. With \<open>maxAttempts\<close> the configured
  \<^verbatim>\<open>maxReconnectAttempts\<close> (10 when it is missing), \<open>intervalMs\<close> the configured
  \<^verbatim>\<open>reconnectInterval\<close> (5000 when it is missing) and \<open>attemptsSoFar\<close> the counter: a call
  of \<^verbatim>\<open>scheduleReconnect\<close> changes nothing when the feature is disabled. When the feature
  is enabled, \<open>maxAttempts\<close> is positive and \<open>attemptsSoFar\<close> has reached it, the call sets
  no timer and only logs the error; nothing else changes, so a call repeated in that
  state does the same. Otherwise the call sets one pending timer of \<open>intervalMs\<close> and
  keeps its handle; when that timer fires the counter is incremented and \<^verbatim>\<open>connect\<close> is
  called, and the timer does not fire a second time. In particular a limit of 0 sets the
  timer whatever the counter is. And with a limit of 3, from a counter of 0, when every
  \<^verbatim>\<open>connect\<close> constructs its socket: three close events, the timer fired after each of the
  first two, have set three timers, the third still pending; once the third has fired,
  the next close event logs the error and sets no timer, and neither does any close
  event that follows it.
\<close>

theorem scheduleReconnect_policy:
  fixes R :: "'u runtime" and cfg :: PluginConfig and s :: service
    and i1 i2 i3 i4 :: nat and c1 c2 c3 c4 :: int and r1 r2 r3 r4 :: string
  shows
  "(let maxAttempts = (case maxReconnectAttempts cfg of None \<Rightarrow> 10 | Some m \<Rightarrow> m);
        intervalMs = (case reconnectInterval cfg of None \<Rightarrow> 5000 | Some ms \<Rightarrow> ms);
        attemptsSoFar = reconnectAttempts s
    in (\<not> gscoreEnable cfg \<longrightarrow> scheduleReconnect cfg s = s)
     \<and> (gscoreEnable cfg \<and> (0 < maxAttempts \<and> maxAttempts \<le> attemptsSoFar) \<longrightarrow>
          scheduleReconnect cfg s =
            s\<lparr>logged := logged s @ [(Error, ReconnectLimitLog maxAttempts)]\<rparr>
          \<and> (\<forall>k. timers ((scheduleReconnect cfg ^^ k) s) = timers s))
     \<and> (gscoreEnable cfg \<and> \<not> (0 < maxAttempts \<and> maxAttempts \<le> attemptsSoFar) \<longrightarrow>
          timers (scheduleReconnect cfg s) = timers s @ [(intervalMs, Pending)]
          \<and> reconnectTimer (scheduleReconnect cfg s) = Some (length (timers s))
          \<and> reconnectAttempts (scheduleReconnect cfg s) = attemptsSoFar
          \<and> timer_fires R cfg (length (timers s)) (scheduleReconnect cfg s) =
              connect R cfg ((scheduleReconnect cfg s)
                               \<lparr>timers := timers s @ [(intervalMs, Fired)],
                                reconnectAttempts := attemptsSoFar + 1\<rparr>)
          \<and> timer_fires R cfg (length (timers s))
                (state_of (timer_fires R cfg (length (timers s)) (scheduleReconnect cfg s)))
              = Returns (state_of (timer_fires R cfg (length (timers s))
                                     (scheduleReconnect cfg s))))
     \<and> (gscoreEnable cfg \<and> maxReconnectAttempts cfg = Some 0 \<longrightarrow>
          timers (scheduleReconnect cfg s) = timers s @ [(intervalMs, Pending)])
     \<and> (gscoreEnable cfg \<and> maxReconnectAttempts cfg = Some 3 \<and> socket_url R cfg = Inr u
          \<and> WebSocket_new R u \<and> attemptsSoFar = 0 \<longrightarrow>
          (let n = length (timers s);
               s3 = run R cfg [SocketClose i1 c1 r1, TimerFires n, SocketClose i2 c2 r2,
                               TimerFires (n + 1), SocketClose i3 c3 r3] s;
               s4 = run R cfg [TimerFires (n + 2), SocketClose i4 c4 r4] s3
           in timers s3 = timers s @ [(intervalMs, Fired), (intervalMs, Fired),
                                      (intervalMs, Pending)]
              \<and> timers s4 = timers s @ [(intervalMs, Fired), (intervalMs, Fired),
                                         (intervalMs, Fired)]
              \<and> reconnectAttempts s4 = 3
              \<and> last (logged s4) = (Error, ReconnectLimitLog 3)
              \<and> (\<forall>cs. timers (run R cfg (map (\<lambda>(i, c, r). SocketClose i c r) cs) s4)
                         = timers s4))))"
  using scheduleReconnect_cases [of cfg s R u i1 c1 r1 i2 c2 r2 i3 c3 r3 i4 c4 r4]
  unfolding exhausted_def max_attempts_def interval_ms_def Let_def
  by this

text \<open>
  The cases of a call, with the default interval and with a configured one, and the run
  of the plain runtime with a limit of 3 in which every socket closes before it opens.
\<close>

theorem scheduleReconnect_policy_witness:
  "scheduleReconnect (example_config\<lparr>gscoreEnable := False\<rparr>) retrying_service = retrying_service
   \<and> timers (scheduleReconnect example_config (retrying_service\<lparr>reconnectAttempts := 3\<rparr>))
       = [(5000, Fired), (5000, Pending)]
   \<and> timers (scheduleReconnect example_config retrying_service)
       = [(5000, Fired), (5000, Pending), (5000, Pending)]
   \<and> timers (scheduleReconnect (example_config\<lparr>reconnectInterval := Some 1500\<rparr>) retrying_service)
       = [(5000, Fired), (5000, Pending), (1500, Pending)]
   \<and> timers (scheduleReconnect (example_config\<lparr>maxReconnectAttempts := Some 0\<rparr>)
                (retrying_service\<lparr>reconnectAttempts := 1000\<rparr>))
       = [(5000, Fired), (5000, Pending), (5000, Pending)]
   \<and> timers (run plain_runtime example_config
                [SocketClose 0 1006 [], TimerFires 0, SocketClose 1 1006 [], TimerFires 1,
                 SocketClose 2 1006 []]
                (state_of (connect plain_runtime example_config initial)))
       = [(5000, Fired), (5000, Fired), (5000, Pending)]
   \<and> timers (run plain_runtime example_config
                [TimerFires 2, SocketClose 3 1006 []]
                (run plain_runtime example_config
                   [SocketClose 0 1006 [], TimerFires 0, SocketClose 1 1006 [], TimerFires 1,
                    SocketClose 2 1006 []]
                   (state_of (connect plain_runtime example_config initial))))
       = [(5000, Fired), (5000, Fired), (5000, Fired)]"
proof -
  have url: "socket_url plain_runtime example_config = Inr ''ws://localhost:8765/ws/napcat?token=abc''"
    by (simp add: socket_url_def routed_url_def endsWith_def example_config_def
        plain_runtime_def startsWith_def parse_query_def)
  have sock: "WebSocket_new plain_runtime ''ws://localhost:8765/ws/napcat?token=abc''"
    by (simp add: plain_runtime_def startsWith_def)
  let ?s0 = "state_of (connect plain_runtime example_config initial)"
  have s0: "timers ?s0 = []" "reconnectAttempts ?s0 = 0"
    using url sock
    by (simp_all add: connect_def example_config_def initial_def readyState_def log_line_def)
  have a: "scheduleReconnect (example_config\<lparr>gscoreEnable := False\<rparr>) retrying_service
             = retrying_service"
    using scheduleReconnect_policy [where cfg = "example_config\<lparr>gscoreEnable := False\<rparr>"
        and s = retrying_service and R = plain_runtime, unfolded Let_def, THEN conjunct1]
    by (simp add: example_config_def)
  have b: "timers (scheduleReconnect example_config (retrying_service\<lparr>reconnectAttempts := 3\<rparr>))
       = [(5000, Fired), (5000, Pending)]"
    using scheduleReconnect_policy [where cfg = example_config
        and s = "retrying_service\<lparr>reconnectAttempts := 3\<rparr>" and R = plain_runtime,
        unfolded Let_def, THEN conjunct2, THEN conjunct1]
    by (simp add: example_config_def retrying_service_def)
  have c: "timers (scheduleReconnect example_config retrying_service)
       = [(5000, Fired), (5000, Pending), (5000, Pending)]"
    using scheduleReconnect_policy [where cfg = example_config
        and s = retrying_service and R = plain_runtime,
        unfolded Let_def, THEN conjunct2, THEN conjunct2, THEN conjunct1]
    by (simp add: example_config_def retrying_service_def)
  have c': "timers (scheduleReconnect (example_config\<lparr>reconnectInterval := Some 1500\<rparr>)
                      retrying_service)
       = [(5000, Fired), (5000, Pending), (1500, Pending)]"
    using scheduleReconnect_policy [where cfg = "example_config\<lparr>reconnectInterval := Some 1500\<rparr>"
        and s = retrying_service and R = plain_runtime,
        unfolded Let_def, THEN conjunct2, THEN conjunct2, THEN conjunct1]
    by (simp add: example_config_def retrying_service_def)
  have d: "timers (scheduleReconnect (example_config\<lparr>maxReconnectAttempts := Some 0\<rparr>)
                (retrying_service\<lparr>reconnectAttempts := 1000\<rparr>))
       = [(5000, Fired), (5000, Pending), (5000, Pending)]"
    using scheduleReconnect_policy [where cfg = "example_config\<lparr>maxReconnectAttempts := Some 0\<rparr>"
        and s = "retrying_service\<lparr>reconnectAttempts := 1000\<rparr>" and R = plain_runtime,
        unfolded Let_def, THEN conjunct2, THEN conjunct2, THEN conjunct2, THEN conjunct1]
    by (simp add: example_config_def retrying_service_def)
  have hyp: "gscoreEnable example_config \<and> maxReconnectAttempts example_config = Some 3
      \<and> socket_url plain_runtime example_config = Inr ''ws://localhost:8765/ws/napcat?token=abc''
      \<and> WebSocket_new plain_runtime ''ws://localhost:8765/ws/napcat?token=abc''
      \<and> reconnectAttempts ?s0 = 0"
    using url sock s0 by (simp add: example_config_def)
  have zero: "length (timers ?s0) = 0" "(0::nat) + 1 = 1" "(0::nat) + 2 = 2"
    and five: "(case reconnectInterval example_config of None \<Rightarrow> 5000 | Some ms \<Rightarrow> ms) = (5000::int)"
    using s0 by (simp_all add: example_config_def)
  have e: "timers (run plain_runtime example_config
                [SocketClose 0 1006 [], TimerFires 0, SocketClose 1 1006 [], TimerFires 1,
                 SocketClose 2 1006 []] ?s0)
       = [(5000, Fired), (5000, Fired), (5000, Pending)]
     \<and> timers (run plain_runtime example_config
                [TimerFires 2, SocketClose 3 1006 []]
                (run plain_runtime example_config
                   [SocketClose 0 1006 [], TimerFires 0, SocketClose 1 1006 [], TimerFires 1,
                    SocketClose 2 1006 []] ?s0))
       = [(5000, Fired), (5000, Fired), (5000, Fired)]"
    using scheduleReconnect_policy [where cfg = example_config and s = ?s0
        and R = plain_runtime and u = "''ws://localhost:8765/ws/napcat?token=abc''"
        and ?i1.0 = 0 and ?c1.0 = 1006 and ?r1.0 = "[]" and ?i2.0 = 1 and ?c2.0 = 1006
        and ?r2.0 = "[]" and ?i3.0 = 2 and ?c3.0 = 1006 and ?r3.0 = "[]" and ?i4.0 = 3
        and ?c4.0 = 1006 and ?r4.0 = "[]", unfolded Let_def,
        THEN conjunct2, THEN conjunct2, THEN conjunct2, THEN conjunct2, THEN mp, OF hyp]
    unfolding zero five
    by (simp add: s0(1) del: run.simps)
  from a b c c' d e show ?thesis by simp
qed

text \<open>
  The counter is incremented when a timer fires, not when a socket closes: at the third
  consecutive close event it is 2, below the limit of 3. The third close event sets a
  timer, and when that timer fires a fourth socket is constructed.
\<close>

theorem third_close_schedules_timer_counterexample:
  "maxReconnectAttempts example_config = Some 3
   \<and> possible_run plain_runtime example_config three_closes_trace initial
   \<and> map snd (sockets (run plain_runtime example_config three_closes_trace initial))
       = [CLOSED, CLOSED, CLOSED]
   \<and> pending_timers (run plain_runtime example_config three_closes_trace initial) = [2]
   \<and> possible_run plain_runtime example_config (three_closes_trace @ [TimerFires 2]) initial
   \<and> map snd (sockets (run plain_runtime example_config (three_closes_trace @ [TimerFires 2])
                          initial))
       = [CLOSED, CLOSED, CLOSED, CONNECTING]"
proof -
  let ?u = "''ws://localhost:8765/ws/napcat?token=abc''"
  have url: "socket_url plain_runtime example_config = Inr ?u"
    by (simp add: socket_url_def routed_url_def endsWith_def example_config_def
        plain_runtime_def startsWith_def parse_query_def)
  have sock: "WebSocket_new plain_runtime ?u"
    by (simp add: plain_runtime_def startsWith_def)
  have en: "gscoreEnable example_config" "maxReconnectAttempts example_config = Some 3"
    "reconnectInterval example_config = None"
    by (simp_all add: example_config_def)
  have s6: "run plain_runtime example_config three_closes_trace initial =
      \<lparr>sockets = [(?u, CLOSED), (?u, CLOSED), (?u, CLOSED)],
       timers = [(5000, Fired), (5000, Fired), (5000, Pending)],
       ws = None, reconnectTimer = Some 2, isConnecting = False, reconnectAttempts = 2,
       logged = [(Info, ConnectingLog), (Warn, ClosedLog 1006 []),
                 (Info, ReconnectInLog 5000 1 (Some 3)), (Info, ConnectingLog),
                 (Warn, ClosedLog 1006 []), (Info, ReconnectInLog 5000 2 (Some 3)),
                 (Info, ConnectingLog), (Warn, ClosedLog 1006 []),
                 (Info, ReconnectInLog 5000 3 (Some 3))],
       frames = []\<rparr>"
    by (simp add: three_closes_trace_def initial_def connect_def url sock en readyState_def
        log_line_def set_ready_def on_close_def scheduleReconnect_def exhausted_def
        max_attempts_def interval_ms_def timer_fires_def Let_def)
  have p6: "possible_run plain_runtime example_config three_closes_trace initial"
    by (simp add: three_closes_trace_def initial_def connect_def url sock en readyState_def
        log_line_def set_ready_def on_close_def scheduleReconnect_def exhausted_def
        max_attempts_def interval_ms_def timer_fires_def Let_def)
  have s7: "map snd (sockets (run plain_runtime example_config
                                (three_closes_trace @ [TimerFires 2]) initial))
              = [CLOSED, CLOSED, CLOSED, CONNECTING]"
    by (simp add: three_closes_trace_def initial_def connect_def url sock en readyState_def
        log_line_def set_ready_def on_close_def scheduleReconnect_def exhausted_def
        max_attempts_def interval_ms_def timer_fires_def Let_def)
  have p7: "possible_run plain_runtime example_config (three_closes_trace @ [TimerFires 2]) initial"
    by (simp add: three_closes_trace_def initial_def connect_def url sock en readyState_def
        log_line_def set_ready_def on_close_def scheduleReconnect_def exhausted_def
        max_attempts_def interval_ms_def timer_fires_def Let_def)
  show ?thesis
    unfolding s6 using p6 p7 s7 en(2)
    by (simp add: pending_timers_def upt_rec)
qed

text \<open>
  Reaching the limit cancels nothing: a timer that is pending when the error is logged
  still fires, and its \<^verbatim>\<open>connect\<close> constructs another socket.
\<close>

lemma orphan_timer_fires_after_limit:
  "possible_run plain_runtime example_config (orphan_timer_trace @ [TimerFires 1]) initial
   \<and> last (logged (run plain_runtime example_config orphan_timer_trace initial))
       = (Error, ReconnectLimitLog 3)
   \<and> pending_timers (run plain_runtime example_config orphan_timer_trace initial) = [1]
   \<and> map snd (sockets (run plain_runtime example_config orphan_timer_trace initial))
       = [CLOSED, CLOSED, CLOSED, CLOSED, CLOSED]
   \<and> map snd (sockets (run plain_runtime example_config (orphan_timer_trace @ [TimerFires 1])
                          initial))
       = [CLOSED, CLOSED, CLOSED, CLOSED, CLOSED, CONNECTING]"
proof -
  let ?u = "''ws://localhost:8765/ws/napcat?token=abc''"
  have url: "socket_url plain_runtime example_config = Inr ?u"
    by (simp add: socket_url_def routed_url_def endsWith_def example_config_def
        plain_runtime_def startsWith_def parse_query_def)
  have sock: "WebSocket_new plain_runtime ?u"
    by (simp add: plain_runtime_def startsWith_def)
  have en: "gscoreEnable example_config" "maxReconnectAttempts example_config = Some 3"
    "reconnectInterval example_config = None"
    by (simp_all add: example_config_def)
  have s: "run plain_runtime example_config orphan_timer_trace initial =
      \<lparr>sockets = [(?u, CLOSED), (?u, CLOSED), (?u, CLOSED), (?u, CLOSED), (?u, CLOSED)],
       timers = [(5000, Fired), (5000, Pending), (5000, Fired), (5000, Fired)],
       ws = None, reconnectTimer = Some 3, isConnecting = False, reconnectAttempts = 3,
       logged = [(Info, ConnectingLog), (Info, ConnectedLog), (Info, ConnectingLog),
                 (Warn, ClosedLog 1000 []), (Info, ReconnectInLog 5000 1 (Some 3)),
                 (Warn, ClosedLog 1006 []), (Info, ReconnectInLog 5000 1 (Some 3)),
                 (Info, ConnectingLog),
                 (Warn, ClosedLog 1006 []), (Info, ReconnectInLog 5000 2 (Some 3)),
                 (Info, ConnectingLog),
                 (Warn, ClosedLog 1006 []), (Info, ReconnectInLog 5000 3 (Some 3)),
                 (Info, ConnectingLog),
                 (Warn, ClosedLog 1006 []), (Error, ReconnectLimitLog 3)],
       frames = []\<rparr>"
    by (simp add: orphan_timer_trace_def initial_def connect_def url sock en readyState_def
        log_line_def on_open_def set_ready_def disconnect_def close_socket_def on_close_def
        scheduleReconnect_def exhausted_def max_attempts_def interval_ms_def timer_fires_def
        clearTimeout_def Let_def)
  have p: "possible_run plain_runtime example_config (orphan_timer_trace @ [TimerFires 1]) initial"
    by (simp add: orphan_timer_trace_def initial_def connect_def url sock en readyState_def
        log_line_def on_open_def set_ready_def disconnect_def close_socket_def on_close_def
        scheduleReconnect_def exhausted_def max_attempts_def interval_ms_def timer_fires_def
        clearTimeout_def Let_def)
  have t: "map snd (sockets (run plain_runtime example_config
                               (orphan_timer_trace @ [TimerFires 1]) initial))
             = [CLOSED, CLOSED, CLOSED, CLOSED, CLOSED, CONNECTING]"
    by (simp add: orphan_timer_trace_def initial_def connect_def url sock en readyState_def
        log_line_def on_open_def set_ready_def disconnect_def close_socket_def on_close_def
        scheduleReconnect_def exhausted_def max_attempts_def interval_ms_def timer_fires_def
        clearTimeout_def Let_def)
  show ?thesis
    unfolding s using p t
    by (simp add: pending_timers_def upt_rec)
qed

section \<open>One socket at a time\<close>

text \<open>
  The guard of \<^verbatim>\<open>connect\<close>: a call while the socket is open, or while \<^verbatim>\<open>isConnecting\<close> is
  set, changes nothing; two calls in a row construct at most one socket.
\<close>

lemma connect_guarded:
  assumes "gscoreEnable cfg" and "readyState s = Some OPEN \<or> isConnecting s"
  shows "connect R cfg s = Returns s"
  using assms by (auto simp: connect_def)

lemma connect_sockets:
  "sockets (state_of (connect R cfg s)) = sockets s
   \<or> (\<exists>u. sockets (state_of (connect R cfg s)) = sockets s @ [(u, CONNECTING)]
          \<and> isConnecting (state_of (connect R cfg s)) \<and> gscoreEnable cfg)
   \<or> (\<exists>i. ws s = Some i \<and> sockets (state_of (connect R cfg s)) = close_socket (sockets s) i
          \<and> \<not> gscoreEnable cfg)"
  by (auto simp: connect_def Let_def log_line_def scheduleReconnect_def disconnect_sockets
      split: sum.splits option.splits)

lemma connect_twice_opens_at_most_one:
  "length (sockets (state_of (connect R cfg (state_of (connect R cfg s))))) \<le> Suc (length (sockets s))"
proof -
  let ?s1 = "state_of (connect R cfg s)"
  from connect_sockets [of R cfg s]
  consider (same) "sockets ?s1 = sockets s"
    | (opened) u where "sockets ?s1 = sockets s @ [(u, CONNECTING)]" "isConnecting ?s1" "gscoreEnable cfg"
    | (closed) i where "sockets ?s1 = close_socket (sockets s) i"
    by blast
  then show ?thesis
  proof cases
    case same
    from connect_sockets [of R cfg ?s1] same show ?thesis
      by (auto simp: close_socket_length)
  next
    case opened
    then have "connect R cfg ?s1 = Returns ?s1"
      by (simp add: connect_guarded)
    with opened show ?thesis by simp
  next
    case closed
    from connect_sockets [of R cfg ?s1] closed show ?thesis
      by (auto simp: close_socket_length)
  qed
qed

text \<open>
  Claim C2 says that at most one socket is ever live. The handlers are closures over the
  service and do not look at the socket that emits the event: the \<^verbatim>\<open>close\<close> of the
  socket that \<^verbatim>\<open>disconnect\<close> closed clears the handle of its successor and sets a
  reconnect timer, and the timer's \<^verbatim>\<open>connect\<close> finds no handle and opens another socket.
  The run is one the transport can produce, and at its end two sockets are open.
\<close>

theorem stale_close_handler_two_live_sockets:
  "possible_run plain_runtime example_config reconfigure_trace initial
   \<and> map snd (sockets (run plain_runtime example_config reconfigure_trace initial)) = [CLOSED, OPEN, OPEN]
   \<and> live_sockets (run plain_runtime example_config reconfigure_trace initial) = [1, 2]
   \<and> ws (run plain_runtime example_config reconfigure_trace initial) = Some 2"
proof -
  let ?u = "''ws://localhost:8765/ws/napcat?token=abc''"
  have url: "socket_url plain_runtime example_config = Inr ?u"
    by (simp add: socket_url_def routed_url_def endsWith_def example_config_def
        plain_runtime_def startsWith_def parse_query_def)
  have sock: "WebSocket_new plain_runtime ?u"
    by (simp add: plain_runtime_def startsWith_def)
  have en: "gscoreEnable example_config" "maxReconnectAttempts example_config = Some 3"
    "reconnectInterval example_config = None"
    by (simp_all add: example_config_def)
  have "run plain_runtime example_config reconfigure_trace initial =
      \<lparr>sockets = [(?u, CLOSED), (?u, OPEN), (?u, OPEN)], timers = [(5000, Fired)],
       ws = Some 2, reconnectTimer = None, isConnecting = False, reconnectAttempts = 0,
       logged = [(Info, ConnectingLog), (Info, ConnectedLog), (Info, ConnectingLog),
                 (Info, ConnectedLog), (Warn, ClosedLog 1000 []),
                 (Info, ReconnectInLog 5000 1 (Some 3)), (Info, ConnectingLog),
                 (Info, ConnectedLog)],
       frames = []\<rparr>"
    by (simp add: reconfigure_trace_def initial_def connect_def url sock en readyState_def
        log_line_def on_open_def set_ready_def disconnect_def close_socket_def on_close_def
        scheduleReconnect_def exhausted_def max_attempts_def interval_ms_def timer_fires_def
        clearTimeout_def Let_def)
  moreover have "possible_run plain_runtime example_config reconfigure_trace initial"
    by (simp add: reconfigure_trace_def initial_def connect_def url sock en readyState_def
        log_line_def on_open_def set_ready_def disconnect_def close_socket_def on_close_def
        scheduleReconnect_def exhausted_def max_attempts_def interval_ms_def timer_fires_def
        clearTimeout_def Let_def)
  ultimately show ?thesis
    by (simp add: live_sockets_def upt_rec)
qed

end
